theory Spec2Isabelle
  imports Main "HOL-Library.AList" "HOL-Library.Sublist"
begin

section \<open>Values, exceptions and the remote services\<close>

text \<open>
  The two scripts (\<^verbatim>\<open>setup-blueprint.py\<close>, \<^verbatim>\<open>setup_domain_connection_role.py\<close>)
  are sequences of blocking boto3 calls. A request is an operation of a service with its
  keyword arguments, which are Python dictionaries, lists and strings: a \<open>json\<close> value.
  Dictionaries keep the insertion order of their keys, so an object is an association
  list (\<open>AList.update\<close> replaces in place or appends, as \<^verbatim>\<open>d[k] = v\<close> does).
  \<^verbatim>\<open>json.dumps\<close> is not modelled: a document is passed as the value it serialises.
\<close>

datatype json =
    JNull
  | JBool bool
  | JInt int
  | JStr string
  | JList "json list"
  | JObj "(string \<times> json) list"

datatype call = Call (service: string) (operation: string) (kwargs: "(string \<times> json) list")

text \<open>
  An exception raised by a call. \<open>err_text\<close> is what \<^verbatim>\<open>str(e)\<close> gives; a
  \<^verbatim>\<open>botocore.exceptions.ClientError\<close> also has \<^verbatim>\<open>e.response["Error"]["Code"]\<close>.
  Strings are byte strings (UTF-8).
\<close>

datatype exn =
    ClientError (err_code: string) (err_text: string)
  | OtherError (err_text: string)

text \<open>How a function of the scripts ends when it does not return: \<^verbatim>\<open>sys.exit(n)\<close>
  or an exception that nothing caught.\<close>

datatype error = SysExit int | Raised exn

text \<open>The state threaded through a run: every request issued, in order, and every
  line printed.\<close>

record state =
  trace :: "call list"
  stdout :: "string list"

definition init :: state where
  "init = \<lparr>trace = [], stdout = []\<rparr>"

definition print :: "string \<Rightarrow> state \<Rightarrow> state" where
  "print line s = s\<lparr>stdout := stdout s @ [line]\<rparr>"

text \<open>Responses, with the fields the scripts read. A field read with \<^verbatim>\<open>.get\<close> is
  optional; a field read with \<^verbatim>\<open>[...]\<close> is one the service always sends.\<close>

record resource =
  rid :: string
  rname :: "string option"

text \<open>A paginator yields its pages one by one and may raise before any of them
  (also from \<^verbatim>\<open>get_paginator\<close>); a page may lack its \<^verbatim>\<open>items\<close>.\<close>

type_synonym 'a pages = "(exn + 'a list option) list"

record existing_config =
  ec_blueprint :: "string option"
  ec_id :: "string option"

record profile_details =
  environmentConfigurations :: "existing_config list option"
  domainUnitId :: "string option"

datatype user_principal = AllUsersGrantFilter | UserIdentifier string

datatype principal = User user_principal | Group string | Project | DomainUnit

text \<open>A grant of \<^verbatim>\<open>list_policy_grants\<close>: \<open>project_profiles\<close> is
  \<^verbatim>\<open>detail.createProjectFromProjectProfile.projectProfiles\<close>, \<open>None\<close> when any key
  on that path is missing.\<close>

record policy_grant =
  grant_principal :: "principal option"
  project_profiles :: "string list option"

text \<open>
  The remote side. A handler sees the whole history of requests, the current one last,
  so a service may answer the same request differently each time.
\<close>

record remote =
  session :: "call list \<Rightarrow> exn + unit"
  get_caller_identity :: "call list \<Rightarrow> exn + string"
  list_environment_blueprints :: "call list \<Rightarrow> resource pages"
  list_project_profiles :: "call list \<Rightarrow> resource pages"
  head_bucket :: "call list \<Rightarrow> exn + unit"
  create_bucket :: "call list \<Rightarrow> exn + unit"
  upload_file :: "call list \<Rightarrow> exn + unit"
  update_environment_blueprint :: "call list \<Rightarrow> exn + unit"
  create_environment_blueprint :: "call list \<Rightarrow> exn + string"
  put_environment_blueprint_configuration :: "call list \<Rightarrow> exn + unit"
  get_environment_blueprint_configuration :: "call list \<Rightarrow> exn + string option"
  get_domain :: "call list \<Rightarrow> exn + string option"
  add_policy_grant :: "call list \<Rightarrow> exn + unit"
  get_project_profile :: "call list \<Rightarrow> exn + profile_details"
  update_project_profile :: "call list \<Rightarrow> exn + unit"
  create_project_profile :: "call list \<Rightarrow> exn + string"
  list_policy_grants :: "call list \<Rightarrow> exn + policy_grant list option"
  iam_create_role :: "call list \<Rightarrow> exn + string"
  update_assume_role_policy :: "call list \<Rightarrow> exn + unit"
  get_role :: "call list \<Rightarrow> exn + string"
  put_role_policy :: "call list \<Rightarrow> exn + unit"
  create_user_profile_r :: "call list \<Rightarrow> exn + string"
  get_user_profile :: "call list \<Rightarrow> exn + string"
  add_entity_owner :: "call list \<Rightarrow> exn + unit"

definition invoke :: "(call list \<Rightarrow> 'a) \<Rightarrow> call \<Rightarrow> state \<Rightarrow> 'a \<times> state" where
  "invoke handler c s = (handler (trace s @ [c]), s\<lparr>trace := trace s @ [c]\<rparr>)"

section \<open>Resource lookup by name\<close>

text \<open>
  \<^verbatim>\<open>for page in pages: for bp in page.get('items', []): if bp.get('name') == name: return bp\<close>.
  The loop ends at the first match, at the first page that raises, or at the end.
\<close>

definition page_items :: "'a list option \<Rightarrow> 'a list" where
  "page_items page = (case page of None \<Rightarrow> [] | Some items \<Rightarrow> items)"

fun scan_pages :: "string \<Rightarrow> resource pages \<Rightarrow> exn + resource option" where
  "scan_pages nm [] = Inr None"
| "scan_pages nm (Inl e # ps) = Inl e"
| "scan_pages nm (Inr page # ps) =
     (case find (\<lambda>r. rname r = Some nm) (page_items page) of
        Some r \<Rightarrow> Inr (Some r)
      | None \<Rightarrow> scan_pages nm ps)"

definition find_blueprint :: "remote \<Rightarrow> string \<Rightarrow> string \<Rightarrow> state \<Rightarrow> resource option \<times> state" where
  "find_blueprint client domain_id blueprint_name s =
     (let (pages, s1) = invoke (list_environment_blueprints client)
            (Call ''datazone'' ''list_environment_blueprints''
               [(''domainIdentifier'', JStr domain_id), (''managed'', JBool False)]) s
      in case scan_pages blueprint_name pages of
           Inr found \<Rightarrow> (found, s1)
         | Inl e \<Rightarrow> (None, print (''Warning: Could not list blueprints: '' @ err_text e) s1))"

definition find_project_profile :: "remote \<Rightarrow> string \<Rightarrow> string \<Rightarrow> state \<Rightarrow> resource option \<times> state" where
  "find_project_profile client domain_id profile_name s =
     (let (pages, s1) = invoke (list_project_profiles client)
            (Call ''datazone'' ''list_project_profiles''
               [(''domainIdentifier'', JStr domain_id)]) s
      in case scan_pages profile_name pages of
           Inr found \<Rightarrow> (found, s1)
         | Inl e \<Rightarrow> (None, print (''Warning: Could not list project profiles: '' @ err_text e) s1))"

section \<open>Strings\<close>

text \<open>\<^verbatim>\<open>str.lower\<close> on the ASCII letters; the markers the scripts look for
  (\<^verbatim>\<open>conflict\<close>, \<^verbatim>\<open>already exists\<close>, \<^verbatim>\<open>existing\<close>) are ASCII.\<close>

definition lower_char :: "char \<Rightarrow> char" where
  "lower_char c =
     (let n = (of_char c :: nat) in if 65 \<le> n \<and> n \<le> 90 then char_of (n + 32) else c)"

definition lower :: "string \<Rightarrow> string" where
  "lower s = map lower_char s"

text \<open>\<^verbatim>\<open>marker in str(e).lower()\<close>: a contiguous substring.\<close>

definition mentions :: "string \<Rightarrow> exn \<Rightarrow> bool" where
  "mentions marker e = sublist marker (lower (err_text e))"

fun join :: "string \<Rightarrow> string list \<Rightarrow> string" where
  "join sep [] = []"
| "join sep [x] = x"
| "join sep (x # y # ys) = x @ sep @ join sep (y # ys)"

definition digit_char :: "nat \<Rightarrow> char" where
  "digit_char d = char_of (48 + d)"

function str_nat :: "nat \<Rightarrow> string" where
  "str_nat n = (if n < 10 then [digit_char n] else str_nat (n div 10) @ [digit_char (n mod 10)])"
  by pat_completeness auto
termination
  by (relation "measure id") auto

text \<open>The check mark U+2713 that the progress lines start with, in UTF-8.\<close>

definition check_mark :: string where
  "check_mark = [char_of (226::nat), char_of (156::nat), char_of (147::nat)]"

text \<open>Python's truth value of an optional string: \<^verbatim>\<open>None\<close> and \<^verbatim>\<open>''\<close> are false.\<close>

definition truthy :: "string option \<Rightarrow> bool" where
  "truthy v = (case v of None \<Rightarrow> False | Some x \<Rightarrow> x \<noteq> [])"

section \<open>Sequencing\<close>

definition and_then ::
  "(error + 'a) \<times> state \<Rightarrow> ('a \<Rightarrow> state \<Rightarrow> (error + 'b) \<times> state) \<Rightarrow> (error + 'b) \<times> state" where
  "and_then m f = (case m of (Inl e, s) \<Rightarrow> (Inl e, s) | (Inr a, s) \<Rightarrow> f a s)"

text \<open>A request outside any \<^verbatim>\<open>try\<close>: its exception propagates.\<close>

definition request :: "(call list \<Rightarrow> exn + 'a) \<Rightarrow> call \<Rightarrow> state \<Rightarrow> (error + 'a) \<times> state" where
  "request handler c s =
     (case invoke handler c s of
        (Inl e, s1) \<Rightarrow> (Inl (Raised e), s1)
      | (Inr v, s1) \<Rightarrow> (Inr v, s1))"

section \<open>First script: configuration\<close>

record config =
  AWS_PROFILE :: string
  AWS_REGION :: string
  DOMAIN_ID :: string
  PROJECT_PROFILE_NAME :: string

text \<open>What the script reads from the machine it runs on: the environment, and the path
  of the template beside the script and whether that file exists.\<close>

record host =
  environ :: "string \<rightharpoonup> string"
  template_path :: string
  template_exists :: bool

definition required :: "string list" where
  "required = [''AWS_REGION'', ''DOMAIN_ID'']"

definition getenv_default :: "(string \<rightharpoonup> string) \<Rightarrow> string \<Rightarrow> string \<Rightarrow> string" where
  "getenv_default env k d = (case env k of None \<Rightarrow> d | Some v \<Rightarrow> v)"

text \<open>\<^verbatim>\<open>os.environ[k]\<close> raises \<^verbatim>\<open>KeyError(k)\<close>, whose text is the quoted key.\<close>

definition getenv_item :: "(string \<rightharpoonup> string) \<Rightarrow> string \<Rightarrow> error + string" where
  "getenv_item env k =
     (case env k of
        None \<Rightarrow> Inl (Raised (OtherError ([CHR 0x27] @ k @ [CHR 0x27])))
      | Some v \<Rightarrow> Inr v)"

definition get_config :: "(string \<rightharpoonup> string) \<Rightarrow> state \<Rightarrow> (error + config) \<times> state" where
  "get_config env s =
     (let missing = filter (\<lambda>k. \<not> truthy (env k)) required in
      if missing \<noteq> [] then
        (Inl (SysExit 1),
         print ''Run: make env ENV=<name> first, or set in .env''
           (print (''Error: Missing env vars: '' @ join '', '' missing) s))
      else
        (case (getenv_item env ''AWS_REGION'', getenv_item env ''DOMAIN_ID'') of
           (Inl e, _) \<Rightarrow> (Inl e, s)
         | (Inr region, Inl e) \<Rightarrow> (Inl e, s)
         | (Inr region, Inr domain) \<Rightarrow>
             (Inr \<lparr>AWS_PROFILE = getenv_default env ''AWS_PROFILE'' ''default'',
                   AWS_REGION = region,
                   DOMAIN_ID = domain,
                   PROJECT_PROFILE_NAME =
                     getenv_default env ''PROJECT_PROFILE_NAME'' ''NeMo-HyperPod-Profile''\<rparr>, s)))"

text \<open>\<^verbatim>\<open>boto3.Session(...)\<close> and the three \<^verbatim>\<open>session.client(...)\<close>, as one step.\<close>

definition get_clients :: "remote \<Rightarrow> config \<Rightarrow> state \<Rightarrow> (error + unit) \<times> state" where
  "get_clients client cfg s =
     request (session client)
       (Call ''boto3'' ''Session''
          [(''profile_name'', JStr (AWS_PROFILE cfg)), (''region_name'', JStr (AWS_REGION cfg))]) s"

section \<open>First script: the template and the blueprint\<close>

definition sq :: string where
  "sq = [CHR 0x27]"

text \<open>The bare \<^verbatim>\<open>except:\<close> around \<^verbatim>\<open>head_bucket\<close> takes every failure as
  "no such bucket"; \<^verbatim>\<open>create_bucket\<close> and \<^verbatim>\<open>upload_file\<close> are unguarded.\<close>

definition upload_nemo_tooling_template ::
  "remote \<Rightarrow> host \<Rightarrow> string \<Rightarrow> string \<Rightarrow> string \<Rightarrow> state \<Rightarrow> (error + string) \<times> state" where
  "upload_nemo_tooling_template s3_client h bucket_name region account_id s =
     (if \<not> template_exists h then
        (Inl (SysExit 1), print (''Error: Template not found at '' @ template_path h) s)
      else
        let template_key = ''blueprints/nemo-tooling-blueprint.yaml'' in
        and_then
          (case invoke (head_bucket s3_client) (Call ''s3'' ''head_bucket'' [(''Bucket'', JStr bucket_name)]) s of
             (Inr ok, s1) \<Rightarrow> (Inr (), s1)
           | (Inl e, s1) \<Rightarrow>
               (let s2 = print (''Creating bucket '' @ bucket_name @ ''...'') s1 in
                if region = ''us-east-1'' then
                  request (create_bucket s3_client)
                    (Call ''s3'' ''create_bucket'' [(''Bucket'', JStr bucket_name)]) s2
                else
                  request (create_bucket s3_client)
                    (Call ''s3'' ''create_bucket''
                       [(''Bucket'', JStr bucket_name),
                        (''CreateBucketConfiguration'', JObj [(''LocationConstraint'', JStr region)])]) s2))
          (\<lambda>ok s3.
             and_then
               (request (upload_file s3_client)
                  (Call ''s3'' ''upload_file''
                     [(''Filename'', JStr (template_path h)), (''Bucket'', JStr bucket_name),
                      (''Key'', JStr template_key)])
                  (print (''Uploading template to s3://'' @ bucket_name @ ''/'' @ template_key @ ''...'') s3))
               (\<lambda>ok s4.
                  (Inr (''https://'' @ bucket_name @ ''.s3.'' @ region @ ''.amazonaws.com/'' @ template_key),
                   s4))))"

definition user_parameter :: "string \<Rightarrow> string \<Rightarrow> string \<Rightarrow> json" where
  "user_parameter key_name description default_value =
     JObj [(''fieldType'', JStr ''STRING''), (''keyName'', JStr key_name),
           (''description'', JStr description), (''isOptional'', JBool True),
           (''defaultValue'', JStr default_value)]"

definition get_nemo_tooling_user_parameters :: "json list" where
  "get_nemo_tooling_user_parameters =
     [user_parameter ''HyperPodClusterName'' ''Base name for the HyperPod cluster'' ''nemo-hyperpod'',
      user_parameter ''NeMoContainerRepository'' ''ECR repository for NeMo container''
        ''nemo-framework-hyperpod'',
      user_parameter ''NeMoContainerTag'' ''NeMo container image tag'' ''25.04-eks'',
      user_parameter ''InstanceType1''
        ''Instance type for training nodes (Karpenter manages scaling)'' ''ml.p4d.24xlarge'',
      user_parameter ''KubernetesVersion'' ''Kubernetes version for EKS cluster'' ''1.33'',
      user_parameter ''EnableTaskGovernance'' ''Enable HyperPod task governance (true/false)'' ''true'',
      user_parameter ''EnableFSxLustre'' ''Create FSx for Lustre file system (true/false)'' ''true'',
      user_parameter ''FSxStorageCapacity''
        ''FSx storage capacity in GiB (1200, 2400, or multiples of 2400)'' ''1200'',
      user_parameter ''FSxPerUnitStorageThroughput'' ''FSx throughput per TiB (125/250/500/1000)'' ''250'',
      user_parameter ''DevModeDisableRollback''
        ''Dev mode: disable nested stack rollback (true/false)'' ''true'']
     @ map (\<lambda>i. user_parameter (''InstanceGroupSettings'' @ str_nat i)
                (''Reserved: instance group settings '' @ str_nat i
                   @ '' (JSON array string). Leave empty to use defaults.'') [])
         [1 ..< 21]"

definition blueprint_description :: string where
  "blueprint_description =
     ''NeMo Tooling - SageMaker domain with FSx and HyperPod cluster for distributed AI training''"

text \<open>
  Find, then update or create, then enable. Neither \<^verbatim>\<open>update_environment_blueprint\<close>
  nor \<^verbatim>\<open>create_environment_blueprint\<close> stands in a \<^verbatim>\<open>try\<close>; the bare
  \<^verbatim>\<open>except:\<close> around \<^verbatim>\<open>put_environment_blueprint_configuration\<close> takes every failure
  as "already enabled".
\<close>

definition create_or_update_nemo_tooling_blueprint ::
  "remote \<Rightarrow> host \<Rightarrow> string \<Rightarrow> string \<Rightarrow> string option \<Rightarrow> string \<Rightarrow> string \<Rightarrow> state
     \<Rightarrow> (error + string) \<times> state" where
  "create_or_update_nemo_tooling_blueprint client h domain_id provisioning_role_arn
       manage_access_role_arn region account_id s =
     (let bucket_name = ''nemo-hyperpod-templates-'' @ account_id @ ''-'' @ region in
      and_then (upload_nemo_tooling_template client h bucket_name region account_id s)
        (\<lambda>template_url s1.
           let blueprint_name = ''NeMo-Tooling'';
               (existing, s2) = find_blueprint client domain_id blueprint_name s1
           in
           and_then
             (case existing of
                Some bp \<Rightarrow>
                  (let blueprint_id = rid bp;
                       s3 = print (''Blueprint '' @ sq @ blueprint_name @ sq @ '' exists (ID: ''
                                     @ blueprint_id @ '')'') s2;
                       s4 = print ''Updating blueprint...'' s3
                   in
                   and_then
                     (request (update_environment_blueprint client)
                        (Call ''datazone'' ''update_environment_blueprint''
                           [(''domainIdentifier'', JStr domain_id),
                            (''identifier'', JStr blueprint_id),
                            (''description'', JStr blueprint_description),
                            (''provisioningProperties'',
                               JObj [(''cloudFormation'', JObj [(''templateUrl'', JStr template_url)])]),
                            (''userParameters'', JList get_nemo_tooling_user_parameters)]) s4)
                     (\<lambda>ok s5. (Inr blueprint_id, print (check_mark @ '' Blueprint updated'') s5)))
              | None \<Rightarrow>
                  (let s3 = print (''Creating blueprint '' @ sq @ blueprint_name @ sq @ ''...'') s2 in
                   and_then
                     (request (create_environment_blueprint client)
                        (Call ''datazone'' ''create_environment_blueprint''
                           [(''domainIdentifier'', JStr domain_id),
                            (''name'', JStr blueprint_name),
                            (''description'', JStr blueprint_description),
                            (''provisioningProperties'',
                               JObj [(''cloudFormation'', JObj [(''templateUrl'', JStr template_url)])]),
                            (''userParameters'', JList get_nemo_tooling_user_parameters)]) s3)
                     (\<lambda>blueprint_id s4.
                        (Inr blueprint_id,
                         print (check_mark @ '' Blueprint created (ID: '' @ blueprint_id @ '')'') s4))))
             (\<lambda>blueprint_id s6.
                let s7 = print (''Enabling blueprint in '' @ region @ ''...'') s6;
                    config_params =
                      [(''domainIdentifier'', JStr domain_id),
                       (''environmentBlueprintIdentifier'', JStr blueprint_id),
                       (''enabledRegions'', JList [JStr region]),
                       (''provisioningRoleArn'', JStr provisioning_role_arn)]
                      @ (case manage_access_role_arn of
                           None \<Rightarrow> []
                         | Some arn \<Rightarrow> if arn \<noteq> [] then [(''manageAccessRoleArn'', JStr arn)] else [])
                in
                case invoke (put_environment_blueprint_configuration client)
                       (Call ''datazone'' ''put_environment_blueprint_configuration'' config_params) s7 of
                  (Inr ok, s8) \<Rightarrow> (Inr blueprint_id, print (check_mark @ '' Blueprint enabled'') s8)
                | (Inl e, s8) \<Rightarrow>
                    (Inr blueprint_id, print (check_mark @ '' Blueprint already enabled'') s8))))"

text \<open>
  The managed Tooling blueprint. The \<^verbatim>\<open>break\<close> leaves the loop over one page only, so
  a later page with a match overrides an earlier one; the listing is not in a \<^verbatim>\<open>try\<close>.
\<close>

fun scan_tooling :: "string option \<Rightarrow> resource pages \<Rightarrow> exn + string option" where
  "scan_tooling tooling_id [] = Inr tooling_id"
| "scan_tooling tooling_id (Inl e # ps) = Inl e"
| "scan_tooling tooling_id (Inr page # ps) =
     scan_tooling
       (case find (\<lambda>bp. rname bp = Some ''Tooling'') (page_items page) of
          Some bp \<Rightarrow> Some (rid bp)
        | None \<Rightarrow> tooling_id) ps"

definition get_tooling_blueprint_config ::
  "remote \<Rightarrow> string \<Rightarrow> state \<Rightarrow> (error + string option \<times> string option) \<times> state" where
  "get_tooling_blueprint_config client domain_id s =
     (let (pages, s1) = invoke (list_environment_blueprints client)
            (Call ''datazone'' ''list_environment_blueprints''
               [(''domainIdentifier'', JStr domain_id), (''managed'', JBool True)]) s
      in case scan_tooling None pages of
           Inl e \<Rightarrow> (Inl (Raised e), s1)
         | Inr None \<Rightarrow> (Inr (None, None), s1)
         | Inr (Some tooling_id) \<Rightarrow>
             if tooling_id = [] then (Inr (None, None), s1)
             else
               (case invoke (get_environment_blueprint_configuration client)
                       (Call ''datazone'' ''get_environment_blueprint_configuration''
                          [(''domainIdentifier'', JStr domain_id),
                           (''environmentBlueprintIdentifier'', JStr tooling_id)]) s1 of
                  (Inr arn, s2) \<Rightarrow> (Inr (Some tooling_id, arn), s2)
                | (Inl e, s2) \<Rightarrow> (Inr (Some tooling_id, None), s2)))"

section \<open>First script: grants for the blueprint\<close>

text \<open>Two grant requests, each in its own \<^verbatim>\<open>try\<close> whose handler prints and goes on,
  whatever the exception: nothing is raised to the caller.\<close>

definition authorize_blueprint_for_domain_unit ::
  "remote \<Rightarrow> string \<Rightarrow> string \<Rightarrow> string \<Rightarrow> string \<Rightarrow> state \<Rightarrow> state" where
  "authorize_blueprint_for_domain_unit dz_client domain_id blueprint_id domain_unit_id account_id s =
     (let entity_id = account_id @ '':'' @ blueprint_id;
          project_principal =
            JObj [(''project'',
              JObj [(''projectDesignation'', JStr ''CONTRIBUTOR''),
                    (''projectGrantFilter'',
                       JObj [(''domainUnitFilter'',
                         JObj [(''domainUnit'', JStr domain_unit_id),
                               (''includeChildDomainUnits'', JBool True)])])])];
          s2 =
            (case invoke (add_policy_grant dz_client)
                    (Call ''datazone'' ''add_policy_grant''
                       [(''domainIdentifier'', JStr domain_id),
                        (''entityType'', JStr ''ENVIRONMENT_BLUEPRINT_CONFIGURATION''),
                        (''entityIdentifier'', JStr entity_id),
                        (''policyType'', JStr ''CREATE_ENVIRONMENT_PROFILE''),
                        (''principal'', project_principal),
                        (''detail'',
                           JObj [(''createEnvironmentProfile'',
                                    JObj [(''domainUnitId'', JStr domain_unit_id)])])]) s of
               (Inr ok, s1) \<Rightarrow> print (check_mark @ '' CREATE_ENVIRONMENT_PROFILE grant added'') s1
             | (Inl e, s1) \<Rightarrow>
                 if mentions ''conflict'' e then
                   print (check_mark @ '' CREATE_ENVIRONMENT_PROFILE grant already exists'') s1
                 else
                   print (''Warning: Could not add CREATE_ENVIRONMENT_PROFILE grant: '' @ err_text e) s1)
      in
      case invoke (add_policy_grant dz_client)
             (Call ''datazone'' ''add_policy_grant''
                [(''domainIdentifier'', JStr domain_id),
                 (''entityType'', JStr ''ENVIRONMENT_BLUEPRINT_CONFIGURATION''),
                 (''entityIdentifier'', JStr entity_id),
                 (''policyType'', JStr ''CREATE_ENVIRONMENT_FROM_BLUEPRINT''),
                 (''principal'', project_principal),
                 (''detail'', JObj [(''createEnvironmentFromBlueprint'', JObj [])])]) s2 of
        (Inr ok, s3) \<Rightarrow> print (check_mark @ '' CREATE_ENVIRONMENT_FROM_BLUEPRINT grant added'') s3
      | (Inl e, s3) \<Rightarrow>
          if mentions ''conflict'' e then
            print (check_mark @ '' CREATE_ENVIRONMENT_FROM_BLUEPRINT grant already exists'') s3
          else
            print (''Warning: Could not add CREATE_ENVIRONMENT_FROM_BLUEPRINT grant: '' @ err_text e) s3)"

section \<open>First script: the project profile\<close>

definition tooling_config :: "string \<Rightarrow> string \<Rightarrow> string \<Rightarrow> (string \<times> json) list" where
  "tooling_config tooling_blueprint_id region account_id =
     [(''environmentBlueprintId'', JStr tooling_blueprint_id),
      (''name'', JStr ''Tooling''),
      (''description'', JStr ''Base tooling environment (IAM roles, security groups)''),
      (''deploymentMode'', JStr ''ON_CREATE''),
      (''deploymentOrder'', JInt 0),
      (''awsAccount'', JObj [(''awsAccountId'', JStr account_id)]),
      (''awsRegion'', JObj [(''regionName'', JStr region)])]"

definition nemo_tooling_config :: "string \<Rightarrow> string \<Rightarrow> string \<Rightarrow> (string \<times> json) list" where
  "nemo_tooling_config nemo_tooling_blueprint_id region account_id =
     [(''environmentBlueprintId'', JStr nemo_tooling_blueprint_id),
      (''name'', JStr ''NeMo Tooling''),
      (''description'', JStr ''SageMaker domain with FSx and HyperPod cluster''),
      (''deploymentMode'', JStr ''ON_CREATE''),
      (''deploymentOrder'', JInt 1),
      (''awsAccount'', JObj [(''awsAccountId'', JStr account_id)]),
      (''awsRegion'', JObj [(''regionName'', JStr region)])]"

definition str_or_empty :: "string option \<Rightarrow> string" where
  "str_or_empty v = (case v of None \<Rightarrow> [] | Some x \<Rightarrow> x)"

text \<open>
  The loop over the existing configurations: the first branch whose blueprint id matches
  and whose \<^verbatim>\<open>id\<close> is true writes that id into the desired configuration. A later
  existing configuration overwrites an earlier one.
\<close>

fun preserve_ids ::
  "string \<Rightarrow> string \<Rightarrow> existing_config list \<Rightarrow> (string \<times> json) list \<times> (string \<times> json) list
     \<Rightarrow> (string \<times> json) list \<times> (string \<times> json) list" where
  "preserve_ids tooling_blueprint_id nemo_tooling_blueprint_id [] cfgs = cfgs"
| "preserve_ids tooling_blueprint_id nemo_tooling_blueprint_id (ec # ecs) (tooling_cfg, nemo_cfg) =
     preserve_ids tooling_blueprint_id nemo_tooling_blueprint_id ecs
       (if ec_blueprint ec = Some tooling_blueprint_id \<and> truthy (ec_id ec) then
          (AList.update ''id'' (JStr (str_or_empty (ec_id ec))) tooling_cfg, nemo_cfg)
        else if ec_blueprint ec = Some nemo_tooling_blueprint_id \<and> truthy (ec_id ec) then
          (tooling_cfg, AList.update ''id'' (JStr (str_or_empty (ec_id ec))) nemo_cfg)
        else (tooling_cfg, nemo_cfg))"

definition profile_description :: string where
  "profile_description = ''Project profile for NeMo Framework on HyperPod''"

definition create_or_update_project_profile ::
  "remote \<Rightarrow> string \<Rightarrow> string \<Rightarrow> string \<Rightarrow> string \<Rightarrow> string \<Rightarrow> string \<Rightarrow> state
     \<Rightarrow> (error + string) \<times> state" where
  "create_or_update_project_profile dz_client domain_id profile_name nemo_tooling_blueprint_id
       tooling_blueprint_id region account_id s =
     (let (existing, s1) = find_project_profile dz_client domain_id profile_name s;
          tooling_cfg = tooling_config tooling_blueprint_id region account_id;
          nemo_cfg = nemo_tooling_config nemo_tooling_blueprint_id region account_id
      in
      case existing of
        Some p \<Rightarrow>
          (let profile_id = rid p;
               s2 = print (''Project profile '' @ sq @ profile_name @ sq @ '' exists (ID: ''
                             @ profile_id @ '')'') s1;
               (details, s3) = invoke (get_project_profile dz_client)
                  (Call ''datazone'' ''get_project_profile''
                     [(''domainIdentifier'', JStr domain_id), (''identifier'', JStr profile_id)]) s2;
               ((tooling_cfg2, nemo_cfg2), s4) =
                 (case details of
                    Inr profile_details \<Rightarrow>
                      (preserve_ids tooling_blueprint_id nemo_tooling_blueprint_id
                         (page_items (environmentConfigurations profile_details))
                         (tooling_cfg, nemo_cfg), s3)
                  | Inl e \<Rightarrow>
                      ((tooling_cfg, nemo_cfg),
                       print (''Warning: Could not get profile details: '' @ err_text e) s3));
               s5 = print ''Updating project profile...'' s4
           in
           and_then
             (request (update_project_profile dz_client)
                (Call ''datazone'' ''update_project_profile''
                   [(''domainIdentifier'', JStr domain_id),
                    (''identifier'', JStr profile_id),
                    (''description'', JStr profile_description),
                    (''environmentConfigurations'', JList [JObj tooling_cfg2, JObj nemo_cfg2])]) s5)
             (\<lambda>ok s6. (Inr profile_id, print (check_mark @ '' Project profile updated'') s6)))
      | None \<Rightarrow>
          (let s2 = print (''Creating project profile '' @ sq @ profile_name @ sq @ ''...'') s1 in
           and_then
             (request (create_project_profile dz_client)
                (Call ''datazone'' ''create_project_profile''
                   [(''domainIdentifier'', JStr domain_id),
                    (''name'', JStr profile_name),
                    (''description'', JStr profile_description),
                    (''environmentConfigurations'', JList [JObj tooling_cfg, JObj nemo_cfg]),
                    (''status'', JStr ''ENABLED'')]) s2)
             (\<lambda>profile_id s3.
                (Inr profile_id,
                 print (check_mark @ '' Project profile created (ID: '' @ profile_id @ '')'') s3))))"

section \<open>First script: authorizing all users\<close>

text \<open>
  \<^verbatim>\<open>existing_profiles\<close> is a Python set. The order in which \<^verbatim>\<open>list(set)\<close> lists it
  is not fixed by the language; the model keeps the ids in the order they were added,
  without repetition, and the theorems below speak of the set of the list only.
\<close>

definition is_all_users :: "policy_grant \<Rightarrow> bool" where
  "is_all_users g =
     (case grant_principal g of Some (User AllUsersGrantFilter) \<Rightarrow> True | _ \<Rightarrow> False)"

datatype grant_scan = AlreadyAuthorized | Existing "string list"

fun scan_grants :: "string \<Rightarrow> string list \<Rightarrow> policy_grant list \<Rightarrow> grant_scan" where
  "scan_grants profile_id existing_profiles [] = Existing existing_profiles"
| "scan_grants profile_id existing_profiles (g # gs) =
     (if is_all_users g then
        (let profiles = page_items (project_profiles g);
             existing_profiles2 = remdups (existing_profiles @ profiles)
         in if profile_id \<in> set profiles then AlreadyAuthorized
            else scan_grants profile_id existing_profiles2 gs)
      else scan_grants profile_id existing_profiles gs)"

definition authorize_all_users :: "remote \<Rightarrow> string \<Rightarrow> string \<Rightarrow> state \<Rightarrow> state" where
  "authorize_all_users dz_client domain_id profile_id s =
     (let s0 = print ''Authorizing all users for project profile...'' s;
          (profile, s1) = invoke (get_project_profile dz_client)
             (Call ''datazone'' ''get_project_profile''
                [(''domainIdentifier'', JStr domain_id), (''identifier'', JStr profile_id)]) s0
      in
      case profile of
        Inl e \<Rightarrow> print (''Warning: Could not get profile details: '' @ err_text e) s1
      | Inr details \<Rightarrow>
          if \<not> truthy (domainUnitId details) then
            print ''Warning: No domain unit ID found on profile'' s1
          else
            (let domain_unit_id = str_or_empty (domainUnitId details);
                 (grants, s2) = invoke (list_policy_grants dz_client)
                    (Call ''datazone'' ''list_policy_grants''
                       [(''domainIdentifier'', JStr domain_id),
                        (''entityType'', JStr ''DOMAIN_UNIT''),
                        (''entityIdentifier'', JStr domain_unit_id),
                        (''policyType'', JStr ''CREATE_PROJECT_FROM_PROJECT_PROFILE'')]) s1;
                 (scan, s3) =
                   (case grants of
                      Inr grant_list \<Rightarrow> (scan_grants profile_id [] (page_items grant_list), s2)
                    | Inl e \<Rightarrow>
                        (Existing [],
                         print (''Warning: Could not check existing grants: '' @ err_text e) s2))
             in
             case scan of
               AlreadyAuthorized \<Rightarrow> print (check_mark @ '' Authorization already exists'') s3
             | Existing existing_profiles \<Rightarrow>
                 (let all_profiles = remdups (existing_profiles @ [profile_id]) in
                  case invoke (add_policy_grant dz_client)
                         (Call ''datazone'' ''add_policy_grant''
                            [(''domainIdentifier'', JStr domain_id),
                             (''entityIdentifier'', JStr domain_unit_id),
                             (''entityType'', JStr ''DOMAIN_UNIT''),
                             (''policyType'', JStr ''CREATE_PROJECT_FROM_PROJECT_PROFILE''),
                             (''principal'', JObj [(''user'', JObj [(''allUsersGrantFilter'', JObj [])])]),
                             (''detail'',
                                JObj [(''createProjectFromProjectProfile'',
                                  JObj [(''includeChildDomainUnits'', JBool True),
                                        (''projectProfiles'', JList (map JStr all_profiles))])])]) s3 of
                    (Inr ok, s4) \<Rightarrow> print (check_mark @ '' All users authorized'') s4
                  | (Inl e, s4) \<Rightarrow>
                      if mentions ''already exists'' e \<or> mentions ''conflict'' e then
                        print (check_mark @ '' Authorization already exists'') s4
                      else print (''Warning: Could not add authorization: '' @ err_text e) s4)))"

section \<open>First script: the run\<close>

definition banner :: string where
  "banner = replicate 60 (CHR ''='')"

definition main ::  "remote \<Rightarrow> host \<Rightarrow> state \<Rightarrow> (error + unit) \<times> state" where
  "main client h s =
     (let s0 = print banner (print ''NeMo Tooling Blueprint Setup'' (print banner s)) in
      and_then (get_config (environ h) s0) (\<lambda>cfg s1.
      let domain_id = DOMAIN_ID cfg in
      and_then (get_clients client cfg s1) (\<lambda>clients s2.
      and_then (request (get_caller_identity client) (Call ''sts'' ''get_caller_identity'' []) s2)
        (\<lambda>account_id s3.
      let provisioning_role_arn =
            ''arn:aws:iam::'' @ account_id @ '':role/service-role/AmazonSageMakerProvisioning-''
              @ account_id;
          region = AWS_REGION cfg;
          profile_name = PROJECT_PROFILE_NAME cfg;
          s4 = print []
                (print (''  Profile: '' @ profile_name)
                (print (''  Account: '' @ account_id)
                (print (''  Region: '' @ region)
                (print (''  Domain ID: '' @ domain_id)
                (print (CHR 0x0A # ''Configuration:'') s3)))));
          s5 = print ''Step 1: Finding Tooling blueprint...'' s4
      in
      and_then (get_tooling_blueprint_config client domain_id s5) (\<lambda>(tooling, manage_access_role_arn) s6.
      if \<not> truthy tooling then
        (Inl (SysExit 1),
         print ''Error: Tooling blueprint not found. Ensure domain is properly configured.'' s6)
      else
      let tooling_blueprint_id = str_or_empty tooling;
          s7 = print (check_mark @ '' Tooling blueprint ID: '' @ tooling_blueprint_id) s6;
          s8 = (if truthy manage_access_role_arn
                then print (check_mark @ '' ManageAccessRole: '' @ str_or_empty manage_access_role_arn) s7
                else s7);
          s9 = print (CHR 0x0A # ''Step 2: Setting up NeMo-Tooling blueprint...'') s8
      in
      and_then (create_or_update_nemo_tooling_blueprint client h domain_id provisioning_role_arn
                  manage_access_role_arn region account_id s9) (\<lambda>nemo_tooling_blueprint_id s10.
      let s11 = print (CHR 0x0A # ''Step 3: Authorizing blueprints for domain unit...'') s10 in
      and_then (request (get_domain client) (Call ''datazone'' ''get_domain'' [(''identifier'', JStr domain_id)]) s11)
        (\<lambda>root_domain_unit_id s12.
      let s13 = (if truthy root_domain_unit_id
                 then authorize_blueprint_for_domain_unit client domain_id nemo_tooling_blueprint_id
                        (str_or_empty root_domain_unit_id) account_id s12
                 else print ''Warning: Could not find root domain unit ID'' s12);
          s14 = print (CHR 0x0A # ''Step 4: Setting up project profile...'') s13
      in
      and_then (create_or_update_project_profile client domain_id profile_name
                  nemo_tooling_blueprint_id tooling_blueprint_id region account_id s14) (\<lambda>profile_id s15.
      let s16 = print (CHR 0x0A # ''Step 5: Authorizing users...'') s15;
          s17 = authorize_all_users client domain_id profile_id s16;
          s18 = print banner (print ''Setup complete!'' (print (CHR 0x0A # banner) s17));
          s19 = print (''Project Profile ID: '' @ profile_id)
                 (print (CHR 0x0A # ''NeMo-Tooling Blueprint ID: '' @ nemo_tooling_blueprint_id) s18);
          s20 = print ''  3. The HyperPod cluster will be provisioned automatically''
                 (print (''  2. Create a new project using '' @ sq @ profile_name @ sq)
                 (print ''  1. Go to SageMaker Unified Studio''
                 (print (CHR 0x0A # ''Next steps:'') s19)))
      in (Inr (), s20)))))))))"

text \<open>The exit status of the process: 0 when \<^verbatim>\<open>main\<close> returns, the argument of
  \<^verbatim>\<open>sys.exit\<close>, and 1 after the traceback of an uncaught exception.\<close>

definition exit_code :: "error + 'a \<Rightarrow> int" where
  "exit_code r = (case r of Inr v \<Rightarrow> 0 | Inl (SysExit n) \<Rightarrow> n | Inl (Raised e) \<Rightarrow> 1)"

section \<open>Second script: the shared connection-creator role\<close>

definition ROLE_NAME :: string where
  "ROLE_NAME = ''DataZoneDomainConnectionCreator''"

definition role_pattern :: "string \<Rightarrow> string" where
  "role_pattern account_id =
     ''arn:aws:iam::'' @ account_id @ '':role/DataZone-Env-*-ConnectionCreatorRole-*''"

definition trust_policy :: "string \<Rightarrow> string \<Rightarrow> json" where
  "trust_policy account_id domain_id =
     JObj [(''Version'', JStr ''2012-10-17''),
           (''Statement'', JList
              [JObj [(''Effect'', JStr ''Allow''),
                     (''Principal'', JObj [(''AWS'', JStr (''arn:aws:iam::'' @ account_id @ '':root''))]),
                     (''Action'', JList [JStr ''sts:AssumeRole'', JStr ''sts:TagSession'']),
                     (''Condition'', JObj
                        [(''ArnLike'', JObj [(''aws:PrincipalArn'', JStr (role_pattern account_id))]),
                         (''StringLike'', JObj [(''aws:RequestTag/datazone:projectId'', JStr ''*'')]),
                         (''StringEquals'',
                            JObj [(''aws:RequestTag/datazone:domainId'', JStr domain_id)])])]])]"

text \<open>
  \<^verbatim>\<open>except ClientError\<close> catches a \<open>ClientError\<close> only, and the handler compares the
  error code with \<^verbatim>\<open>==\<close>; every other failure is raised again.
\<close>

definition create_role :: "remote \<Rightarrow> string \<Rightarrow> string \<Rightarrow> state \<Rightarrow> (error + string) \<times> state" where
  "create_role iam account_id domain_id s =
     (let s0 = print (''Allowed caller pattern: '' @ role_pattern account_id) s in
      case invoke (iam_create_role iam)
             (Call ''iam'' ''create_role''
                [(''RoleName'', JStr ROLE_NAME),
                 (''AssumeRolePolicyDocument'', trust_policy account_id domain_id),
                 (''Description'',
                    JStr ''Shared role for blueprint Lambdas to create DataZone connections'')]) s0 of
        (Inr arn, s1) \<Rightarrow> (Inr arn, print (''Created role: '' @ ROLE_NAME) s1)
      | (Inl (OtherError text), s1) \<Rightarrow> (Inl (Raised (OtherError text)), s1)
      | (Inl (ClientError code text), s1) \<Rightarrow>
          if code = ''EntityAlreadyExists'' then
            and_then
              (request (update_assume_role_policy iam)
                 (Call ''iam'' ''update_assume_role_policy''
                    [(''RoleName'', JStr ROLE_NAME),
                     (''PolicyDocument'', trust_policy account_id domain_id)])
                 (print (''Role '' @ ROLE_NAME @ '' already exists, updating trust policy...'') s1))
              (\<lambda>ok s2. request (get_role iam) (Call ''iam'' ''get_role'' [(''RoleName'', JStr ROLE_NAME)]) s2)
          else (Inl (Raised (ClientError code text)), s1))"







section \<open>Vocabulary of the properties\<close>

text \<open>The requests issued between two states of a run.\<close>

definition issued :: "state \<Rightarrow> state \<Rightarrow> call list" where
  "issued s s' = drop (length (trace s)) (trace s')"

text \<open>The requests of the two lookups, as \<open>find_blueprint\<close> and
  \<open>find_project_profile\<close> send them.\<close>

definition blueprints_call :: "string \<Rightarrow> call" where
  "blueprints_call domain_id =
     Call ''datazone'' ''list_environment_blueprints''
       [(''domainIdentifier'', JStr domain_id), (''managed'', JBool False)]"

definition profiles_call :: "string \<Rightarrow> call" where
  "profiles_call domain_id =
     Call ''datazone'' ''list_project_profiles'' [(''domainIdentifier'', JStr domain_id)]"

text \<open>No page of \<open>pre\<close> raises and none holds a resource of that name.\<close>

definition unmatched :: "string \<Rightarrow> resource pages \<Rightarrow> bool" where
  "unmatched nm pre =
     list_all (\<lambda>p. case p of Inl e \<Rightarrow> False
                      | Inr pg \<Rightarrow> find (\<lambda>r. rname r = Some nm) (page_items pg) = None) pre"

text \<open>The requests of \<open>authorize_all_users\<close>.\<close>

definition get_profile_call :: "string \<Rightarrow> string \<Rightarrow> call" where
  "get_profile_call domain_id profile_id =
     Call ''datazone'' ''get_project_profile''
       [(''domainIdentifier'', JStr domain_id), (''identifier'', JStr profile_id)]"

definition list_grants_call :: "string \<Rightarrow> string \<Rightarrow> call" where
  "list_grants_call domain_id domain_unit_id =
     Call ''datazone'' ''list_policy_grants''
       [(''domainIdentifier'', JStr domain_id),
        (''entityType'', JStr ''DOMAIN_UNIT''),
        (''entityIdentifier'', JStr domain_unit_id),
        (''policyType'', JStr ''CREATE_PROJECT_FROM_PROJECT_PROFILE'')]"

definition all_users_grant_call :: "string \<Rightarrow> string \<Rightarrow> string list \<Rightarrow> call" where
  "all_users_grant_call domain_id domain_unit_id profiles =
     Call ''datazone'' ''add_policy_grant''
       [(''domainIdentifier'', JStr domain_id),
        (''entityIdentifier'', JStr domain_unit_id),
        (''entityType'', JStr ''DOMAIN_UNIT''),
        (''policyType'', JStr ''CREATE_PROJECT_FROM_PROJECT_PROFILE''),
        (''principal'', JObj [(''user'', JObj [(''allUsersGrantFilter'', JObj [])])]),
        (''detail'',
           JObj [(''createProjectFromProjectProfile'',
             JObj [(''includeChildDomainUnits'', JBool True),
                   (''projectProfiles'', JList (map JStr profiles))])])]"

text \<open>The profile ids that the listed all-users grants authorize.\<close>

definition authorized :: "policy_grant list \<Rightarrow> string list" where
  "authorized grants =
     concat (map (\<lambda>g. page_items (project_profiles g)) (filter is_all_users grants))"


text \<open>The requests that write the project profile.\<close>

definition update_profile_call :: "string \<Rightarrow> string \<Rightarrow> json list \<Rightarrow> call" where
  "update_profile_call domain_id profile_id cfgs =
     Call ''datazone'' ''update_project_profile''
       [(''domainIdentifier'', JStr domain_id),
        (''identifier'', JStr profile_id),
        (''description'', JStr profile_description),
        (''environmentConfigurations'', JList cfgs)]"

definition create_profile_call :: "string \<Rightarrow> string \<Rightarrow> json list \<Rightarrow> call" where
  "create_profile_call domain_id profile_name cfgs =
     Call ''datazone'' ''create_project_profile''
       [(''domainIdentifier'', JStr domain_id),
        (''name'', JStr profile_name),
        (''description'', JStr profile_description),
        (''environmentConfigurations'', JList cfgs),
        (''status'', JStr ''ENABLED'')]"

text \<open>The ids that the existing configurations of a blueprint have been assigned, in
  the order of the existing profile's list.\<close>

definition assigned_ids :: "string \<Rightarrow> existing_config list \<Rightarrow> string list" where
  "assigned_ids blueprint_id ecs =
     concat (map (\<lambda>ec. case ec_id ec of
                          None \<Rightarrow> []
                        | Some i \<Rightarrow> if ec_blueprint ec = Some blueprint_id \<and> i \<noteq> [] then [i] else [])
               ecs)"

text \<open>A desired configuration as it is sent: with the last of those ids when there is
  one, and with no \<^verbatim>\<open>id\<close> otherwise.\<close>

definition with_id :: "string list \<Rightarrow> (string \<times> json) list \<Rightarrow> json" where
  "with_id ids cfg = (if ids = [] then JObj cfg else JObj (cfg @ [(''id'', JStr (last ids))]))"

definition profile_write :: "call \<Rightarrow> bool" where
  "profile_write c =
     (operation c = ''create_project_profile'' \<or> operation c = ''update_project_profile'')"

text \<open>What the loop of \<open>preserve_ids\<close> leaves in one configuration, given the ids it met
  for that blueprint.\<close>

definition carry :: "string list \<Rightarrow> (string \<times> json) list \<Rightarrow> (string \<times> json) list" where
  "carry ids cfg = (if ids = [] then cfg else AList.update ''id'' (JStr (last ids)) cfg)"

text \<open>The names of the keyword arguments of a request.\<close>

definition argument_names :: "call \<Rightarrow> string list" where
  "argument_names c = map fst (kwargs c)"

text \<open>Between \<open>s\<close> and \<open>s'\<close> the trace has only grown, by requests that all satisfy
  \<open>P\<close>.\<close>

definition emits :: "(call \<Rightarrow> bool) \<Rightarrow> state \<Rightarrow> state \<Rightarrow> bool" where
  "emits P s s' = (take (length (trace s)) (trace s') = trace s
                   \<and> list_all P (drop (length (trace s)) (trace s')))"

text \<open>A request of operation \<open>op\<close> has exactly these keyword arguments.\<close>

definition only_named :: "string \<Rightarrow> string list \<Rightarrow> call \<Rightarrow> bool" where
  "only_named op names c = (operation c = op \<longrightarrow> argument_names c = names)"

text \<open>Failures of the mutating requests that no handler guards.\<close>

definition err_of :: "exn + 'a \<Rightarrow> exn option" where
  "err_of r = (case r of Inl e \<Rightarrow> Some e | Inr v \<Rightarrow> None)"

text \<open>The exception, if any, with which the service answered the last request of a
  history, when that request is one of the mutating requests that the first script
  issues outside any \<^verbatim>\<open>try\<close>.\<close>

definition failure :: "remote \<Rightarrow> call list \<Rightarrow> call \<Rightarrow> exn option" where
  "failure client t c =
     (let op = operation c in
      if op = ''create_bucket'' then err_of (create_bucket client (t @ [c]))
      else if op = ''upload_file'' then err_of (upload_file client (t @ [c]))
      else if op = ''update_environment_blueprint'' then err_of (update_environment_blueprint client (t @ [c]))
      else if op = ''create_environment_blueprint'' then err_of (create_environment_blueprint client (t @ [c]))
      else if op = ''update_project_profile'' then err_of (update_project_profile client (t @ [c]))
      else if op = ''create_project_profile'' then err_of (create_project_profile client (t @ [c]))
      else None)"

text \<open>Of the requests \<open>k\<close> issued after the history \<open>t\<close>, none but the last was
  answered by such an exception, and if the last was, the run ended with it.\<close>

fun fatal_last :: "remote \<Rightarrow> call list \<Rightarrow> call list \<Rightarrow> error + 'a \<Rightarrow> bool" where
  "fatal_last client t [] r = True"
| "fatal_last client t [c] r =
     (case failure client t c of None \<Rightarrow> True | Some e \<Rightarrow> isl r \<and> projl r = Raised e)"
| "fatal_last client t (c # c' # cs) r =
     (failure client t c = None \<and> fatal_last client (t @ [c]) (c' # cs) r)"

definition propagates :: "remote \<Rightarrow> state \<Rightarrow> (error + 'a) \<times> state \<Rightarrow> bool" where
  "propagates client s m =
     (take (length (trace s)) (trace (snd m)) = trace s
      \<and> fatal_last client (trace s) (drop (length (trace s)) (trace (snd m))) (fst m))"

definition guarded :: "call \<Rightarrow> bool" where
  "guarded c = (operation c \<notin> set [''create_bucket'', ''upload_file'', ''update_environment_blueprint'',
                  ''create_environment_blueprint'', ''update_project_profile'', ''create_project_profile''])"

text \<open>A property of what a function returns, as a constant the simplifier can move
  into the branches of the function.\<close>

definition ensures :: "('a \<Rightarrow> bool) \<Rightarrow> 'a \<Rightarrow> bool" where
  "ensures Q x = Q x"

text \<open>Reading a document along a path of keys and indices, and the policy documents that a
  request carries.\<close>

datatype step = Key string | Index nat

fun jget :: "json \<Rightarrow> step \<Rightarrow> json option" where
  "jget (JObj kvs) (Key k) = map_of kvs k"
| "jget (JList xs) (Index i) = (if i < length xs then Some (xs ! i) else None)"
| "jget j p = None"

fun jpath :: "step list \<Rightarrow> json \<Rightarrow> json option" where
  "jpath [] j = Some j"
| "jpath (p # ps) j = (case jget j p of None \<Rightarrow> None | Some j' \<Rightarrow> jpath ps j')"

definition policy_documents :: "call \<Rightarrow> json list" where
  "policy_documents c =
     map snd (filter (\<lambda>kv. fst kv = ''AssumeRolePolicyDocument'' \<or> fst kv = ''PolicyDocument'')
                (kwargs c))"

section \<open>Concrete services for the examples\<close>

text \<open>A domain in which every request succeeds: the managed Tooling blueprint exists,
  no custom blueprint and no project profile does, and no grant is listed.\<close>

definition managed_listing :: "call list \<Rightarrow> bool" where
  "managed_listing t =
     (case t of [] \<Rightarrow> False
      | c # cs \<Rightarrow> map_of (kwargs (last t)) ''managed'' = Some (JBool True))"

definition fresh_domain :: remote where
  "fresh_domain =
     \<lparr>session = (\<lambda>t. Inr ()),
      get_caller_identity = (\<lambda>t. Inr ''111122223333''),
      list_environment_blueprints =
        (\<lambda>t. if managed_listing t
              then [Inr (Some [\<lparr>rid = ''bp-tooling'', rname = Some ''Tooling''\<rparr>])]
              else [Inr (Some [])]),
      list_project_profiles = (\<lambda>t. [Inr (Some [])]),
      head_bucket = (\<lambda>t. Inr ()),
      create_bucket = (\<lambda>t. Inr ()),
      upload_file = (\<lambda>t. Inr ()),
      update_environment_blueprint = (\<lambda>t. Inr ()),
      create_environment_blueprint = (\<lambda>t. Inr ''bp-nemo''),
      put_environment_blueprint_configuration = (\<lambda>t. Inr ()),
      get_environment_blueprint_configuration = (\<lambda>t. Inr (Some ''arn:aws:iam::111122223333:role/manage'')),
      get_domain = (\<lambda>t. Inr (Some ''du-root'')),
      add_policy_grant = (\<lambda>t. Inr ()),
      get_project_profile =
        (\<lambda>t. Inr \<lparr>environmentConfigurations = Some [], domainUnitId = Some ''du-root''\<rparr>),
      update_project_profile = (\<lambda>t. Inr ()),
      create_project_profile = (\<lambda>t. Inr ''pp-1''),
      list_policy_grants = (\<lambda>t. Inr (Some [])),
      iam_create_role = (\<lambda>t. Inr ''arn:aws:iam::111122223333:role/DataZoneDomainConnectionCreator''),
      update_assume_role_policy = (\<lambda>t. Inr ()),
      get_role = (\<lambda>t. Inr ''arn:aws:iam::111122223333:role/DataZoneDomainConnectionCreator''),
      put_role_policy = (\<lambda>t. Inr ()),
      create_user_profile_r = (\<lambda>t. Inr ''up-1''),
      get_user_profile = (\<lambda>t. Inr ''up-1''),
      add_entity_owner = (\<lambda>t. Inr ())\<rparr>"

definition laptop :: host where
  "laptop =
     \<lparr>environ = [''AWS_REGION'' \<mapsto> ''eu-west-1'', ''DOMAIN_ID'' \<mapsto> ''dzd_1''],
      template_path = ''/repo/blueprints/nemo-tooling-blueprint.yaml'',
      template_exists = True\<rparr>"

text \<open>An all-users grant for two other profiles is already there.\<close>

definition two_granted :: remote where
  "two_granted =
     fresh_domain\<lparr>list_policy_grants :=
       (\<lambda>t. Inr (Some [\<lparr>grant_principal = Some (User AllUsersGrantFilter),
                          project_profiles = Some [''P1'', ''P2'']\<rparr>]))\<rparr>"

text \<open>The listing of blueprints and of project profiles fails on its second page.\<close>

definition throttled :: exn where
  "throttled = ClientError ''ThrottlingException'' ''Rate exceeded''"

definition flaky_listing :: remote where
  "flaky_listing =
     fresh_domain\<lparr>list_environment_blueprints :=
                    (\<lambda>t. [Inr (Some [\<lparr>rid = ''bp-other'', rname = Some ''Other''\<rparr>]), Inl throttled,
                          Inr (Some [\<lparr>rid = ''bp-nemo'', rname = Some ''NeMo-Tooling''\<rparr>])]),
                  list_project_profiles := (\<lambda>t. [Inr None, Inl throttled])\<rparr>"

text \<open>A domain set up by an earlier run.\<close>

definition configured_domain :: remote where
  "configured_domain =
     fresh_domain\<lparr>list_environment_blueprints :=
                    (\<lambda>t. if managed_listing t
                          then [Inr (Some [\<lparr>rid = ''bp-tooling'', rname = Some ''Tooling''\<rparr>])]
                          else [Inr (Some [\<lparr>rid = ''bp-other'', rname = None\<rparr>]),
                                Inr (Some [\<lparr>rid = ''bp-nemo'', rname = Some ''NeMo-Tooling''\<rparr>,
                                           \<lparr>rid = ''bp-dup'', rname = Some ''NeMo-Tooling''\<rparr>])]),
                  list_project_profiles :=
                    (\<lambda>t. [Inr (Some [\<lparr>rid = ''pp-1'', rname = Some ''NeMo-HyperPod-Profile''\<rparr>])]),
                  get_project_profile :=
                    (\<lambda>t. Inr \<lparr>environmentConfigurations =
                                Some [\<lparr>ec_blueprint = Some ''bp-tooling'', ec_id = Some ''E0''\<rparr>,
                                      \<lparr>ec_blueprint = Some ''bp-nemo'', ec_id = Some ''E1''\<rparr>],
                              domainUnitId = Some ''du-root''\<rparr>)\<rparr>"

text \<open>The same domain when the grants cannot be listed.\<close>

definition grants_unlistable :: remote where
  "grants_unlistable = two_granted\<lparr>list_policy_grants := (\<lambda>t. Inl throttled)\<rparr>"

text \<open>The existing profile holds no usable id for either blueprint.\<close>

definition unconfigured_profile :: remote where
  "unconfigured_profile =
     configured_domain\<lparr>get_project_profile :=
       (\<lambda>t. Inr \<lparr>environmentConfigurations =
                   Some [\<lparr>ec_blueprint = Some ''bp-tooling'', ec_id = None\<rparr>,
                         \<lparr>ec_blueprint = Some ''bp-elsewhere'', ec_id = Some ''E9''\<rparr>],
                 domainUnitId = Some ''du-root''\<rparr>)\<rparr>"

text \<open>Every grant request fails with the given exception.\<close>

definition grants_failing :: "exn \<Rightarrow> remote" where
  "grants_failing e = fresh_domain\<lparr>add_policy_grant := (\<lambda>t. Inl e)\<rparr>"

definition denied :: exn where
  "denied = ClientError ''AccessDeniedException''
     ''An error occurred (AccessDeniedException): User is not authorized to perform this action''"

text \<open>The project profile cannot be created.\<close>

definition outage :: exn where
  "outage = ClientError ''InternalServerException''
     ''An error occurred (InternalServerException) when calling the CreateProjectProfile operation: Internal failure''"

definition profile_write_failing :: remote where
  "profile_write_failing = fresh_domain\<lparr>create_project_profile := (\<lambda>t. Inl outage)\<rparr>"

definition enable_failing :: remote where
  "enable_failing = fresh_domain\<lparr>put_environment_blueprint_configuration := (\<lambda>t. Inl denied)\<rparr>"

definition profile_unreadable :: remote where
  "profile_unreadable = two_granted\<lparr>get_project_profile := (\<lambda>t. Inl throttled)\<rparr>"

definition listing_fails_once :: remote where
  "listing_fails_once =
     two_granted\<lparr>list_policy_grants :=
       (\<lambda>t. if length t = 2 then Inl throttled
             else Inr (Some [\<lparr>grant_principal = Some (User AllUsersGrantFilter),
                               project_profiles = Some [''P1'', ''P2'']\<rparr>]))\<rparr>"

definition details_unreadable_once :: remote where
  "details_unreadable_once =
     configured_domain\<lparr>get_project_profile :=
       (\<lambda>t. if length t = 2 then Inl throttled
             else Inr \<lparr>environmentConfigurations =
                         Some [\<lparr>ec_blueprint = Some ''bp-tooling'', ec_id = Some ''E0''\<rparr>,
                               \<lparr>ec_blueprint = Some ''bp-nemo'', ec_id = Some ''E1''\<rparr>],
                       domainUnitId = Some ''du-root''\<rparr>)\<rparr>"

definition one_blueprint :: remote where
  "one_blueprint =
     configured_domain\<lparr>get_project_profile :=
       (\<lambda>t. Inr \<lparr>environmentConfigurations =
                   Some [\<lparr>ec_blueprint = Some ''bp-x'', ec_id = Some ''E0''\<rparr>],
                 domainUnitId = Some ''du-root''\<rparr>)\<rparr>"






section \<open>Reasoning about runs\<close>

lemma and_then_Inl: "and_then (Inl e, s) f = (Inl e, s)"
  by (simp add: and_then_def)

lemma and_then_Inr: "and_then (Inr a, s) f = f a s"
  by (simp add: and_then_def)

lemma request_eq:
  "request h c s =
     (case h (trace s @ [c]) of
        Inl e \<Rightarrow> (Inl (Raised e), s\<lparr>trace := trace s @ [c]\<rparr>)
      | Inr v \<Rightarrow> (Inr v, s\<lparr>trace := trace s @ [c]\<rparr>))"
  by (simp add: request_def invoke_def split: sum.splits)

lemma and_then_case_sum:
  "and_then (case x of Inl e \<Rightarrow> A e | Inr v \<Rightarrow> B v) f =
     (case x of Inl e \<Rightarrow> and_then (A e) f | Inr v \<Rightarrow> and_then (B v) f)"
  by (simp split: sum.splits)

lemma and_then_case_option:
  "and_then (case x of None \<Rightarrow> A | Some v \<Rightarrow> B v) f =
     (case x of None \<Rightarrow> and_then A f | Some v \<Rightarrow> and_then (B v) f)"
  by (simp split: option.splits)

lemma and_then_if:
  "and_then (if b then m1 else m2) f = (if b then and_then m1 f else and_then m2 f)"
  by simp

lemma case_prod_case_sum:
  "(case (case x of Inl e \<Rightarrow> A e | Inr v \<Rightarrow> B v) of (a, b) \<Rightarrow> f a b) =
     (case x of Inl e \<Rightarrow> (case A e of (a, b) \<Rightarrow> f a b)
              | Inr v \<Rightarrow> (case B v of (a, b) \<Rightarrow> f a b))"
  by (simp split: sum.splits)

lemmas run_simps = case_prod_case_sum and_then_Inl and_then_Inr request_eq and_then_case_sum
  and_then_case_option and_then_if invoke_def print_def Let_def

lemma emits_case_sum:
  "emits P s (snd (case x of Inl e \<Rightarrow> A e | Inr v \<Rightarrow> B v)) =
     (case x of Inl e \<Rightarrow> emits P s (snd (A e)) | Inr v \<Rightarrow> emits P s (snd (B v)))"
  by (simp split: sum.splits)

lemma emits_case_option:
  "emits P s (snd (case x of None \<Rightarrow> A | Some v \<Rightarrow> B v)) =
     (case x of None \<Rightarrow> emits P s (snd A) | Some v \<Rightarrow> emits P s (snd (B v)))"
  by (simp split: option.splits)

lemma emits_if:
  "emits P s (snd (if b then A else B)) = (if b then emits P s (snd A) else emits P s (snd B))"
  by simp

lemma case_sum_True: "(case x of Inl e \<Rightarrow> True | Inr v \<Rightarrow> True) = True"
  by (simp split: sum.splits)

lemma case_option_True: "(case x of None \<Rightarrow> True | Some v \<Rightarrow> True) = True"
  by (simp split: option.splits)

lemmas emits_simps = emits_case_sum emits_case_option emits_if case_sum_True case_option_True

lemma emits_trans:
  assumes "emits P s s1" and "emits P s1 s2"
  shows "emits P s s2"
proof -
  from assms(1) obtain k where k: "trace s1 = trace s @ k" "list_all P k"
    by (metis append_take_drop_id emits_def)
  from assms(2) obtain l where l: "trace s2 = trace s1 @ l" "list_all P l"
    by (metis append_take_drop_id emits_def)
  from k l show ?thesis by (simp add: emits_def)
qed

lemma emits_and_then:
  assumes "emits P s (snd m)" and "\<And>a s1. emits P s1 (snd (f a s1))"
  shows "emits P s (snd (and_then m f))"
proof (cases m)
  case (Pair r s1)
  show ?thesis
  proof (cases r)
    case (Inl e)
    with Pair assms(1) show ?thesis by (simp add: and_then_def)
  next
    case (Inr a)
    with Pair assms(1) assms(2) [of s1 a] show ?thesis
      by (auto simp: and_then_def intro: emits_trans)
  qed
qed

lemma only_named_filter:
  "list_all (only_named op names) k \<Longrightarrow>
     list_all (\<lambda>c. argument_names c = names) (filter (\<lambda>c. operation c = op) k)"
  by (induction k) (auto simp: only_named_def)

text \<open>Propagation of the failures of unguarded requests.\<close>

lemma failure_guarded: "guarded c \<Longrightarrow> failure client t c = None"
  by (simp add: failure_def guarded_def)

lemma fatal_last_guarded: "list_all guarded k \<Longrightarrow> fatal_last client t k r"
  by (induction client t k r rule: fatal_last.induct) (simp_all add: failure_guarded)

lemma fatal_last_Cons:
  "fatal_last client t (c # k) r =
     (if k = [] then (case failure client t c of None \<Rightarrow> True | Some e \<Rightarrow> isl r \<and> projl r = Raised e)
      else failure client t c = None \<and> fatal_last client (t @ [c]) k r)"
  by (cases k) simp_all

lemma fatal_last_append:
  "fatal_last client t k1 (Inr a) \<Longrightarrow> fatal_last client (t @ k1) k2 r
     \<Longrightarrow> fatal_last client t (k1 @ k2) r"
proof (induction k1 arbitrary: t)
  case Nil
  then show ?case by simp
next
  case (Cons c k1)
  from Cons.prems(1) have none: "failure client t c = None"
    by (cases k1) (simp_all split: option.splits)
  from Cons.prems(1) none have rest: "fatal_last client (t @ [c]) k1 (Inr a)"
    by (cases k1) simp_all
  from Cons.IH [OF rest] Cons.prems(2) have "fatal_last client (t @ [c]) (k1 @ k2) r"
    by simp
  with none show ?case
    by (cases "k1 @ k2") (simp_all add: fatal_last_Cons)
qed

lemma fatal_last_guarded_append:
  "list_all guarded k1 \<Longrightarrow> fatal_last client (t @ k1) k2 r \<Longrightarrow> fatal_last client t (k1 @ k2) r"
proof (induction k1 arbitrary: t)
  case Nil
  then show ?case by simp
next
  case (Cons c k1)
  then have "fatal_last client (t @ [c]) (k1 @ k2) r" by simp
  with Cons.prems(1) show ?case
    by (cases "k1 @ k2") (simp_all add: fatal_last_Cons failure_guarded)
qed

lemma fatal_last_Inl:
  "fatal_last client t k (Inl e :: error + 'a) = fatal_last client t k (Inl e :: error + 'b)"
proof (induction k arbitrary: t)
  case Nil
  show ?case by simp
next
  case (Cons c k)
  then show ?case by (cases k) (simp_all split: option.splits)
qed

lemma propagates_and_then:
  fixes m :: "(error + 'a) \<times> state" and f :: "'a \<Rightarrow> state \<Rightarrow> (error + 'b) \<times> state"
  assumes "propagates client s m" and "\<And>a s1. propagates client s1 (f a s1)"
  shows "propagates client s (and_then m f)"
proof (cases m)
  case (Pair r s1)
  show ?thesis
  proof (cases r)
    case (Inl e)
    have "fatal_last client (trace s) k (Inl e :: error + 'b)
            = fatal_last client (trace s) k (Inl e :: error + 'a)" for k
      by (rule fatal_last_Inl)
    with Inl Pair assms(1) show ?thesis by (simp add: and_then_def propagates_def)
  next
    case (Inr a)
    from assms(1) Pair Inr obtain k1 where k1: "trace s1 = trace s @ k1"
      "fatal_last client (trace s) k1 (Inr a :: error + 'a)"
      by (metis append_take_drop_id propagates_def fst_conv snd_conv)
    from assms(2) [of s1 a] obtain k2 where k2: "trace (snd (f a s1)) = trace s1 @ k2"
      "fatal_last client (trace s1) k2 (fst (f a s1))"
      by (metis append_take_drop_id propagates_def)
    from k1 k2 fatal_last_append [of client "trace s" k1 a k2 "fst (f a s1)"]
    show ?thesis using Pair Inr
      by (simp add: propagates_def and_then_def)
  qed
qed

lemma propagates_after:
  assumes "emits guarded s s1" and "propagates client s1 m"
  shows "propagates client s m"
proof -
  from assms(1) obtain k1 where k1: "trace s1 = trace s @ k1" "list_all guarded k1"
    by (metis append_take_drop_id emits_def)
  from assms(2) obtain k2 where k2: "trace (snd m) = trace s1 @ k2"
      "fatal_last client (trace s1) k2 (fst m)"
    by (metis append_take_drop_id propagates_def)
  from k1 k2 fatal_last_guarded_append [of k1 client "trace s" k2 "fst m"]
  show ?thesis by (simp add: propagates_def)
qed

lemma propagates_case_sum:
  "propagates client s (case x of Inl e \<Rightarrow> A e | Inr v \<Rightarrow> B v) =
     (case x of Inl e \<Rightarrow> propagates client s (A e) | Inr v \<Rightarrow> propagates client s (B v))"
  by (simp split: sum.splits)

lemma propagates_case_option:
  "propagates client s (case x of None \<Rightarrow> A | Some v \<Rightarrow> B v) =
     (case x of None \<Rightarrow> propagates client s A | Some v \<Rightarrow> propagates client s (B v))"
  by (simp split: option.splits)

lemma propagates_if:
  "propagates client s (if b then A else B) = (if b then propagates client s A else propagates client s B)"
  by simp

lemmas propagates_simps = propagates_case_sum propagates_case_option propagates_if
  case_sum_True case_option_True

lemma emits_state_case_sum:
  "emits P s (case x of Inl e \<Rightarrow> A e | Inr v \<Rightarrow> B v) =
     (case x of Inl e \<Rightarrow> emits P s (A e) | Inr v \<Rightarrow> emits P s (B v))"
  by (simp split: sum.splits)

lemma emits_state_case_option:
  "emits P s (case x of None \<Rightarrow> A | Some v \<Rightarrow> B v) =
     (case x of None \<Rightarrow> emits P s A | Some v \<Rightarrow> emits P s (B v))"
  by (simp split: option.splits)

lemma emits_state_case_scan:
  "emits P s (case x of AlreadyAuthorized \<Rightarrow> A | Existing v \<Rightarrow> B v) =
     (case x of AlreadyAuthorized \<Rightarrow> emits P s A | Existing v \<Rightarrow> emits P s (B v))"
  by (simp split: grant_scan.splits)

lemma emits_state_if:
  "emits P s (if b then A else B) = (if b then emits P s A else emits P s B)"
  by simp

lemma case_scan_True: "(case x of AlreadyAuthorized \<Rightarrow> True | Existing v \<Rightarrow> True) = True"
  by (simp split: grant_scan.splits)

lemma trace_case_sum:
  "trace (case x of Inl e \<Rightarrow> A e | Inr v \<Rightarrow> B v) =
     (case x of Inl e \<Rightarrow> trace (A e) | Inr v \<Rightarrow> trace (B v))"
  by (simp split: sum.splits)

lemma trace_if: "trace (if b then A else B) = (if b then trace A else trace B)"
  by simp

lemma case_sum_same: "(case x of Inl e \<Rightarrow> c | Inr v \<Rightarrow> c) = c"
  by (simp split: sum.splits)

lemmas trace_simps = trace_case_sum trace_if case_sum_same

lemma emits_print: "emits P s (print l s') = emits P s s'"
  by (simp add: emits_def print_def)

lemma emits_same: "emits P s s"
  by (simp add: emits_def)

lemmas emits_state_simps = emits_state_case_sum emits_state_case_option emits_state_case_scan
  emits_state_if case_sum_True case_option_True case_scan_True emits_print

lemma propagates_guarded: "emits guarded s (snd m) \<Longrightarrow> propagates client s m"
  by (simp add: emits_def propagates_def fatal_last_guarded)

lemma propagates_from:
  assumes "propagates client s0 m" and "emits guarded s s0"
    and "\<And>a s1. propagates client s1 (f a s1)"
  shows "propagates client s (and_then m f)"
  using propagates_after [OF assms(2) propagates_and_then [OF assms(1) assms(3)]] .

lemma request_guarded: "guarded c \<Longrightarrow> propagates client s (request h c s)"
  by (rule propagates_guarded) (simp add: request_eq emits_def split: sum.splits)

lemma ensures_case_sum:
  "ensures Q (case x of Inl e \<Rightarrow> A e | Inr v \<Rightarrow> B v) =
     (case x of Inl e \<Rightarrow> ensures Q (A e) | Inr v \<Rightarrow> ensures Q (B v))"
  by (simp split: sum.splits)

lemma ensures_case_option:
  "ensures Q (case x of None \<Rightarrow> A | Some v \<Rightarrow> B v) =
     (case x of None \<Rightarrow> ensures Q A | Some v \<Rightarrow> ensures Q (B v))"
  by (simp split: option.splits)

lemma ensures_if: "ensures Q (if b then A else B) = (if b then ensures Q A else ensures Q B)"
  by simp

lemmas ensures_simps = ensures_case_sum ensures_case_option ensures_if case_sum_True case_option_True

lemma Let_case_sum:
  "Let (case x of Inl e \<Rightarrow> A e | Inr v \<Rightarrow> B v) f =
     (case x of Inl e \<Rightarrow> Let (A e) f | Inr v \<Rightarrow> Let (B v) f)"
  by (simp split: sum.splits)

lemma Let_if: "Let (if b then A else B) f = (if b then Let A f else Let B f)"
  by simp

section \<open>Lookup\<close>

lemma scan_pages_raises:
  "unmatched nm pre \<Longrightarrow> scan_pages nm (pre @ Inl e # post) = Inl e"
  by (induction pre) (auto simp: unmatched_def split: sum.splits)

lemma find_append_item:
  "find P (xs @ ys) = (case find P xs of Some x \<Rightarrow> Some x | None \<Rightarrow> find P ys)"
  by (induction xs) auto

lemma scan_pages_all:
  "scan_pages nm (map Inr pgs) = Inr (find (\<lambda>r. rname r = Some nm) (concat (map page_items pgs)))"
  by (induction pgs) (auto simp: find_append_item split: option.splits)

text \<open>
  Claim C3. Whatever the scope and the name: when the paginated listing raises before a
  page has shown a resource of that name, the lookup returns \<open>None\<close>, having printed
  a warning with the text of the exception, and raises nothing; when every page arrives,
  it returns the first listed resource of that name, or \<open>None\<close> when there is none.
  This holds for \<open>find_blueprint\<close> and for \<open>find_project_profile\<close>.
\<close>

theorem lookup_degrades_to_absent:
  "(list_environment_blueprints client (trace s @ [blueprints_call d]) = pre @ Inl e # post
      \<and> unmatched nm pre
    \<longrightarrow> find_blueprint client d nm s =
          (None, print (''Warning: Could not list blueprints: '' @ err_text e)
                   (s\<lparr>trace := trace s @ [blueprints_call d]\<rparr>)))
   \<and> (list_environment_blueprints client (trace s @ [blueprints_call d]) = map Inr pgs
    \<longrightarrow> find_blueprint client d nm s =
          (find (\<lambda>r. rname r = Some nm) (concat (map page_items pgs)),
           s\<lparr>trace := trace s @ [blueprints_call d]\<rparr>))
   \<and> (list_project_profiles client (trace s @ [profiles_call d]) = pre @ Inl e # post
      \<and> unmatched nm pre
    \<longrightarrow> find_project_profile client d nm s =
          (None, print (''Warning: Could not list project profiles: '' @ err_text e)
                   (s\<lparr>trace := trace s @ [profiles_call d]\<rparr>)))
   \<and> (list_project_profiles client (trace s @ [profiles_call d]) = map Inr pgs
    \<longrightarrow> find_project_profile client d nm s =
          (find (\<lambda>r. rname r = Some nm) (concat (map page_items pgs)),
           s\<lparr>trace := trace s @ [profiles_call d]\<rparr>))"
  by (simp add: find_blueprint_def find_project_profile_def invoke_def blueprints_call_def
        profiles_call_def scan_pages_raises scan_pages_all)

theorem lookup_degrades_to_absent_witness:
  "find_blueprint flaky_listing ''dzd_1'' ''NeMo-Tooling'' init =
     (None, \<lparr>trace = [blueprints_call ''dzd_1''],
             stdout = [''Warning: Could not list blueprints: Rate exceeded'']\<rparr>)
   \<and> find_blueprint configured_domain ''dzd_1'' ''NeMo-Tooling'' init =
     (Some \<lparr>rid = ''bp-nemo'', rname = Some ''NeMo-Tooling''\<rparr>,
      \<lparr>trace = [blueprints_call ''dzd_1''], stdout = []\<rparr>)
   \<and> find_project_profile flaky_listing ''dzd_1'' ''NeMo-HyperPod-Profile'' init =
     (None, \<lparr>trace = [profiles_call ''dzd_1''],
             stdout = [''Warning: Could not list project profiles: Rate exceeded'']\<rparr>)
   \<and> find_project_profile fresh_domain ''dzd_1'' ''NeMo-HyperPod-Profile'' init =
     (None, \<lparr>trace = [profiles_call ''dzd_1''], stdout = []\<rparr>)"
proof -
  have a: "list_environment_blueprints flaky_listing (trace init @ [blueprints_call ''dzd_1''])
             = [Inr (Some [\<lparr>rid = ''bp-other'', rname = Some ''Other''\<rparr>])] @ Inl throttled
               # [Inr (Some [\<lparr>rid = ''bp-nemo'', rname = Some ''NeMo-Tooling''\<rparr>])]
           \<and> unmatched ''NeMo-Tooling'' [Inr (Some [\<lparr>rid = ''bp-other'', rname = Some ''Other''\<rparr>])]"
    by (simp add: flaky_listing_def fresh_domain_def unmatched_def page_items_def)
  have b: "list_environment_blueprints configured_domain (trace init @ [blueprints_call ''dzd_1''])
             = map Inr [Some [\<lparr>rid = ''bp-other'', rname = None\<rparr>],
                        Some [\<lparr>rid = ''bp-nemo'', rname = Some ''NeMo-Tooling''\<rparr>,
                              \<lparr>rid = ''bp-dup'', rname = Some ''NeMo-Tooling''\<rparr>]]"
    by (simp add: configured_domain_def fresh_domain_def managed_listing_def blueprints_call_def
          init_def)
  have c: "list_project_profiles flaky_listing (trace init @ [profiles_call ''dzd_1''])
             = [Inr None] @ Inl throttled # []
           \<and> unmatched ''NeMo-HyperPod-Profile'' [Inr None]"
    by (simp add: flaky_listing_def fresh_domain_def unmatched_def page_items_def)
  have d: "list_project_profiles fresh_domain (trace init @ [profiles_call ''dzd_1''])
             = map Inr [Some []]"
    by (simp add: fresh_domain_def)
  note t = lookup_degrades_to_absent
  from a t [where client = flaky_listing and s = init and d = "''dzd_1''" and nm = "''NeMo-Tooling''"
              and e = throttled and pgs = "[]"
              and pre = "[Inr (Some [\<lparr>rid = ''bp-other'', rname = Some ''Other''\<rparr>])]"
              and post = "[Inr (Some [\<lparr>rid = ''bp-nemo'', rname = Some ''NeMo-Tooling''\<rparr>])]"]
  have 1: "find_blueprint flaky_listing ''dzd_1'' ''NeMo-Tooling'' init =
     (None, \<lparr>trace = [blueprints_call ''dzd_1''],
             stdout = [''Warning: Could not list blueprints: Rate exceeded'']\<rparr>)"
    by (simp add: init_def print_def throttled_def)
  from b t [where client = configured_domain and s = init and d = "''dzd_1''"
              and nm = "''NeMo-Tooling''" and e = throttled and pre = "[]" and post = "[]"
              and pgs = "[Some [\<lparr>rid = ''bp-other'', rname = None\<rparr>],
                        Some [\<lparr>rid = ''bp-nemo'', rname = Some ''NeMo-Tooling''\<rparr>,
                              \<lparr>rid = ''bp-dup'', rname = Some ''NeMo-Tooling''\<rparr>]]"]
  have 2: "find_blueprint configured_domain ''dzd_1'' ''NeMo-Tooling'' init =
     (Some \<lparr>rid = ''bp-nemo'', rname = Some ''NeMo-Tooling''\<rparr>,
      \<lparr>trace = [blueprints_call ''dzd_1''], stdout = []\<rparr>)"
    by (simp add: init_def page_items_def)
  from c t [where client = flaky_listing and s = init and d = "''dzd_1''"
              and nm = "''NeMo-HyperPod-Profile''" and e = throttled and pgs = "[]"
              and pre = "[Inr None]" and post = "[]"]
  have 3: "find_project_profile flaky_listing ''dzd_1'' ''NeMo-HyperPod-Profile'' init =
     (None, \<lparr>trace = [profiles_call ''dzd_1''],
             stdout = [''Warning: Could not list project profiles: Rate exceeded'']\<rparr>)"
    by (simp add: init_def print_def throttled_def)
  from d t [where client = fresh_domain and s = init and d = "''dzd_1''"
              and nm = "''NeMo-HyperPod-Profile''" and e = throttled and pre = "[]" and post = "[]"
              and pgs = "[Some []]"]
  have 4: "find_project_profile fresh_domain ''dzd_1'' ''NeMo-HyperPod-Profile'' init =
     (None, \<lparr>trace = [profiles_call ''dzd_1''], stdout = []\<rparr>)"
    by (simp add: init_def page_items_def)
  from 1 2 3 4 show ?thesis by simp
qed

section \<open>Authorizing all users\<close>

lemma authorized_Nil: "authorized [] = []"
  by (simp add: authorized_def)

lemma authorized_Cons:
  "authorized (g # gs) =
     (if is_all_users g then page_items (project_profiles g) @ authorized gs else authorized gs)"
  by (simp add: authorized_def)

lemma scan_grants_member:
  "p \<in> set (authorized gs) \<Longrightarrow> scan_grants p acc gs = AlreadyAuthorized"
  by (induction gs arbitrary: acc) (auto simp: authorized_Nil authorized_Cons Let_def split: if_splits)

lemma scan_grants_union:
  "p \<notin> set (authorized gs) \<Longrightarrow>
     \<exists>L. scan_grants p acc gs = Existing L \<and> set L = set acc \<union> set (authorized gs)"
proof (induction gs arbitrary: acc)
  case Nil
  then show ?case by (simp add: authorized_Nil)
next
  case (Cons g gs)
  show ?case
  proof (cases "is_all_users g")
    case True
    from Cons.prems True have notin: "p \<notin> set (page_items (project_profiles g))"
      and rest: "p \<notin> set (authorized gs)"
      by (simp_all add: authorized_Cons)
    from Cons.IH [OF rest, of "remdups (acc @ page_items (project_profiles g))"]
    obtain L where "scan_grants p (remdups (acc @ page_items (project_profiles g))) gs = Existing L"
      and "set L = set (remdups (acc @ page_items (project_profiles g))) \<union> set (authorized gs)"
      by blast
    with True notin show ?thesis
      by (simp add: authorized_Cons Let_def Un_assoc)
  next
    case False
    with Cons.prems have rest: "p \<notin> set (authorized gs)"
      by (simp add: authorized_Cons)
    from Cons.IH [OF rest, of acc] False show ?thesis
      by (simp add: authorized_Cons)
  qed
qed

text \<open>What \<open>authorize_all_users\<close> does once the profile is read and the grants are
  scanned, whatever the service answers to the grant request.\<close>

lemma authorize_all_users_issued:
  assumes profile: "get_project_profile client (trace s @ [get_profile_call d p]) = Inr details"
    and unit: "domainUnitId details = Some du" "du \<noteq> []"
  shows "list_policy_grants client (trace s @ [get_profile_call d p, list_grants_call d du]) = Inr grants
           \<Longrightarrow> scan_grants p [] (page_items grants) = Existing L
           \<Longrightarrow> issued s (authorize_all_users client d p s)
               = [get_profile_call d p, list_grants_call d du,
                  all_users_grant_call d du (remdups (L @ [p]))]"
    and "list_policy_grants client (trace s @ [get_profile_call d p, list_grants_call d du]) = Inr grants
           \<Longrightarrow> scan_grants p [] (page_items grants) = AlreadyAuthorized
           \<Longrightarrow> issued s (authorize_all_users client d p s)
                 = [get_profile_call d p, list_grants_call d du]
               \<and> last (stdout (authorize_all_users client d p s))
                 = check_mark @ '' Authorization already exists''"
    and "list_policy_grants client (trace s @ [get_profile_call d p, list_grants_call d du]) = Inl e
           \<Longrightarrow> issued s (authorize_all_users client d p s)
                 = [get_profile_call d p, list_grants_call d du, all_users_grant_call d du [p]]
               \<and> ''Warning: Could not check existing grants: '' @ err_text e
                 \<in> set (stdout (authorize_all_users client d p s))"
  using profile unit
  by (simp_all add: authorize_all_users_def invoke_def print_def issued_def truthy_def
        str_or_empty_def get_profile_call_def list_grants_call_def all_users_grant_call_def Let_def
        split: prod.splits sum.splits)

text \<open>
  Claim C1, as amended. When the profile's domain unit is known and the listing of grants
  succeeds:
  if the desired profile id is in none of the listed all-users grants, exactly one grant
  request follows the two reads, and its target ids are, as a set, the ids of the listed
  all-users grants together with the desired one, so that no id authorized before is
  left out; if the desired id is in one of them, no grant request is issued and the
  function reports that the authorization exists.
\<close>

theorem grant_merger_monotonic:
  assumes profile: "get_project_profile client (trace s @ [get_profile_call d p]) = Inr details"
    and unit: "domainUnitId details = Some du" "du \<noteq> []"
    and listing: "list_policy_grants client (trace s @ [get_profile_call d p, list_grants_call d du])
                   = Inr grants"
  shows "(p \<notin> set (authorized (page_items grants)) \<longrightarrow>
            (\<exists>L. issued s (authorize_all_users client d p s)
                   = [get_profile_call d p, list_grants_call d du, all_users_grant_call d du L]
                 \<and> set L = set (authorized (page_items grants)) \<union> {p}))
       \<and> (p \<in> set (authorized (page_items grants)) \<longrightarrow>
            issued s (authorize_all_users client d p s)
              = [get_profile_call d p, list_grants_call d du]
            \<and> last (stdout (authorize_all_users client d p s))
              = check_mark @ '' Authorization already exists'')"
proof (rule conjI; rule impI)
  assume "p \<notin> set (authorized (page_items grants))"
  from scan_grants_union [OF this, of "[]"]
  obtain L where L: "scan_grants p [] (page_items grants) = Existing L"
    "set L = set (authorized (page_items grants))" by auto
  from authorize_all_users_issued(1) [OF profile unit listing L(1)] L(2)
  have "issued s (authorize_all_users client d p s)
          = [get_profile_call d p, list_grants_call d du, all_users_grant_call d du (remdups (L @ [p]))]
        \<and> set (remdups (L @ [p])) = set (authorized (page_items grants)) \<union> {p}"
    by simp
  then show "\<exists>L. issued s (authorize_all_users client d p s)
                   = [get_profile_call d p, list_grants_call d du, all_users_grant_call d du L]
                 \<and> set L = set (authorized (page_items grants)) \<union> {p}"
    by blast
next
  assume "p \<in> set (authorized (page_items grants))"
  from scan_grants_member [OF this, of "[]"]
  have "scan_grants p [] (page_items grants) = AlreadyAuthorized" .
  from authorize_all_users_issued(2) [OF profile unit listing this]
  show "issued s (authorize_all_users client d p s)
              = [get_profile_call d p, list_grants_call d du]
            \<and> last (stdout (authorize_all_users client d p s))
              = check_mark @ '' Authorization already exists''" .
qed

lemma two_granted_answers:
  "get_project_profile two_granted t
     = Inr \<lparr>environmentConfigurations = Some [], domainUnitId = Some ''du-root''\<rparr>"
  "list_policy_grants two_granted t
     = Inr (Some [\<lparr>grant_principal = Some (User AllUsersGrantFilter),
                    project_profiles = Some [''P1'', ''P2'']\<rparr>])"
  by (simp_all add: two_granted_def fresh_domain_def)

lemma two_granted_authorized:
  "authorized (page_items (Some [\<lparr>grant_principal = Some (User AllUsersGrantFilter),
                    project_profiles = Some [''P1'', ''P2'']\<rparr>])) = [''P1'', ''P2'']"
  by (simp add: authorized_def page_items_def is_all_users_def)

theorem grant_merger_monotonic_witness:
  "(\<exists>L. issued init (authorize_all_users two_granted ''dzd_1'' ''P3'' init)
          = [get_profile_call ''dzd_1'' ''P3'', list_grants_call ''dzd_1'' ''du-root'',
             all_users_grant_call ''dzd_1'' ''du-root'' L]
        \<and> set L = {''P1'', ''P2'', ''P3''})
   \<and> issued init (authorize_all_users two_granted ''dzd_1'' ''P2'' init)
          = [get_profile_call ''dzd_1'' ''P2'', list_grants_call ''dzd_1'' ''du-root'']"
proof -
  from grant_merger_monotonic [of two_granted init "''dzd_1''" "''P3''", OF two_granted_answers(1) _ _ two_granted_answers(2), of "''du-root''"]
  have 1: "\<exists>L. issued init (authorize_all_users two_granted ''dzd_1'' ''P3'' init)
          = [get_profile_call ''dzd_1'' ''P3'', list_grants_call ''dzd_1'' ''du-root'',
             all_users_grant_call ''dzd_1'' ''du-root'' L]
        \<and> set L = {''P1'', ''P2'', ''P3''}"
    by (simp add: two_granted_authorized insert_commute)
  from grant_merger_monotonic [of two_granted init "''dzd_1''" "''P2''", OF two_granted_answers(1) _ _ two_granted_answers(2), of "''du-root''"]
  have 2: "issued init (authorize_all_users two_granted ''dzd_1'' ''P2'' init)
          = [get_profile_call ''dzd_1'' ''P2'', list_grants_call ''dzd_1'' ''du-root'']"
    by (simp add: two_granted_authorized)
  from 1 2 show ?thesis by simp
qed

text \<open>
  Without the two reads the merger is not reached or has nothing to merge. In
  \<open>profile_unreadable\<close> the all-users grant for \<^verbatim>\<open>P1\<close> and \<^verbatim>\<open>P2\<close> exists, the
  profile cannot be read, and no grant request is issued for \<^verbatim>\<open>P3\<close>. In
  \<open>listing_fails_once\<close> the same grant exists, the one listing request of the run
  raises, and the grant request carries \<^verbatim>\<open>P3\<close> alone.
\<close>

theorem grant_merger_counterexample:
  "list_policy_grants profile_unreadable
     [get_profile_call ''dzd_1'' ''P3'', list_grants_call ''dzd_1'' ''du-root'']
     = Inr (Some [\<lparr>grant_principal = Some (User AllUsersGrantFilter),
                    project_profiles = Some [''P1'', ''P2'']\<rparr>])
   \<and> issued init (authorize_all_users profile_unreadable ''dzd_1'' ''P3'' init)
       = [get_profile_call ''dzd_1'' ''P3'']
   \<and> list_policy_grants listing_fails_once
         [get_profile_call ''dzd_1'' ''P3'', list_grants_call ''dzd_1'' ''du-root'',
          list_grants_call ''dzd_1'' ''du-root'']
       = Inr (Some [\<lparr>grant_principal = Some (User AllUsersGrantFilter),
                      project_profiles = Some [''P1'', ''P2'']\<rparr>])
   \<and> issued init (authorize_all_users listing_fails_once ''dzd_1'' ''P3'' init)
       = [get_profile_call ''dzd_1'' ''P3'', list_grants_call ''dzd_1'' ''du-root'',
          all_users_grant_call ''dzd_1'' ''du-root'' [''P3'']]"
  by (simp add: profile_unreadable_def listing_fails_once_def two_granted_def fresh_domain_def
        authorize_all_users_def invoke_def print_def issued_def init_def Let_def truthy_def
        str_or_empty_def get_profile_call_def list_grants_call_def all_users_grant_call_def)

text \<open>
  Claim C9. When the listing of the existing grants raises, the grant request is still
  issued, and its target ids are the desired profile id alone: whatever ids an all-users
  grant held before, none of them is in the request. A warning with the text of the
  exception is printed.
\<close>

theorem listing_failure_drops_existing_targets:
  assumes profile: "get_project_profile client (trace s @ [get_profile_call d p]) = Inr details"
    and unit: "domainUnitId details = Some du" "du \<noteq> []"
    and listing: "list_policy_grants client (trace s @ [get_profile_call d p, list_grants_call d du])
                   = Inl e"
  shows "issued s (authorize_all_users client d p s)
           = [get_profile_call d p, list_grants_call d du, all_users_grant_call d du [p]]
         \<and> ''Warning: Could not check existing grants: '' @ err_text e
             \<in> set (stdout (authorize_all_users client d p s))"
  using authorize_all_users_issued(3) [OF profile unit listing] .

theorem listing_failure_drops_existing_targets_witness:
  "issued init (authorize_all_users grants_unlistable ''dzd_1'' ''P3'' init)
     = [get_profile_call ''dzd_1'' ''P3'', list_grants_call ''dzd_1'' ''du-root'',
        all_users_grant_call ''dzd_1'' ''du-root'' [''P3'']]
   \<and> ''Warning: Could not check existing grants: Rate exceeded''
       \<in> set (stdout (authorize_all_users grants_unlistable ''dzd_1'' ''P3'' init))"
  using listing_failure_drops_existing_targets [of grants_unlistable init "''dzd_1''" "''P3''"
      "\<lparr>environmentConfigurations = Some [], domainUnitId = Some ''du-root''\<rparr>" "''du-root''" throttled]
  by (simp add: grants_unlistable_def two_granted_def fresh_domain_def throttled_def)

section \<open>The project profile\<close>

lemma assigned_ids_Cons:
  "assigned_ids b (ec # ecs) =
     (if ec_blueprint ec = Some b \<and> truthy (ec_id ec) then str_or_empty (ec_id ec) # assigned_ids b ecs
      else assigned_ids b ecs)"
  by (auto simp: assigned_ids_def truthy_def str_or_empty_def split: option.splits)

lemma carry_update:
  "carry ids (AList.update ''id'' v cfg) = (if ids = [] then AList.update ''id'' v cfg else carry ids cfg)"
  by (simp add: carry_def update_last)

lemma preserve_ids_carry:
  "t \<noteq> n \<Longrightarrow>
     preserve_ids t n ecs (tc, nc) = (carry (assigned_ids t ecs) tc, carry (assigned_ids n ecs) nc)"
proof (induction ecs arbitrary: tc nc)
  case Nil
  then show ?case by (simp add: assigned_ids_def carry_def)
next
  case (Cons ec ecs)
  then show ?case
    by (simp add: assigned_ids_Cons carry_update) (simp add: carry_def)
qed

lemma preserve_ids_keys:
  "k \<noteq> ''id'' \<Longrightarrow>
     map_of (fst (preserve_ids t n ecs (tc, nc))) k = map_of tc k
     \<and> map_of (snd (preserve_ids t n ecs (tc, nc))) k = map_of nc k"
  by (induction ecs arbitrary: tc nc) (simp_all add: update_conv')

lemma carry_tooling:
  "JObj (carry ids (tooling_config t r a)) = with_id ids (tooling_config t r a)"
  "JObj (carry ids (nemo_tooling_config t r a)) = with_id ids (nemo_tooling_config t r a)"
  by (simp_all add: carry_def with_id_def tooling_config_def nemo_tooling_config_def)

lemma find_project_profile_trace:
  "trace (snd (find_project_profile client d nm s)) = trace s @ [profiles_call d]"
  by (simp add: find_project_profile_def invoke_def profiles_call_def print_def split: sum.splits)

text \<open>
  Claim C2, as amended. On the update path (the profile was found by name and its details
  were
  read), with the two blueprint ids different: the one write request is the update, and
  each desired configuration is sent with the id that the existing profile holds for a
  configuration of the same blueprint (\<open>assigned_ids\<close>; the last one, should there be
  several), and with no \<^verbatim>\<open>id\<close> key when the existing profile holds none.
\<close>

theorem update_preserves_config_ids:
  assumes found: "find_project_profile client d nm s = (Some prof, s1)"
    and details: "get_project_profile client (trace s1 @ [get_profile_call d (rid prof)]) = Inr details"
    and different: "tooling \<noteq> nemo"
  shows "issued s1 (snd (create_or_update_project_profile client d nm nemo tooling region account s))
           = [get_profile_call d (rid prof),
              update_profile_call d (rid prof)
                [with_id (assigned_ids tooling (page_items (environmentConfigurations details)))
                   (tooling_config tooling region account),
                 with_id (assigned_ids nemo (page_items (environmentConfigurations details)))
                   (nemo_tooling_config nemo region account)]]"
  using found details
  by (simp add: create_or_update_project_profile_def invoke_def print_def issued_def Let_def
        get_profile_call_def update_profile_call_def preserve_ids_carry [OF different] carry_tooling
        request_def and_then_def
        split: prod.splits sum.splits)

lemma profile_configs_order:
  "map_of (tooling_config t r a) ''environmentBlueprintId'' = Some (JStr t)"
  "map_of (tooling_config t r a) ''deploymentOrder'' = Some (JInt 0)"
  "map_of (nemo_tooling_config n r a) ''environmentBlueprintId'' = Some (JStr n)"
  "map_of (nemo_tooling_config n r a) ''deploymentOrder'' = Some (JInt 1)"
  by (simp_all add: tooling_config_def nemo_tooling_config_def)

lemma preserve_ids_other_keys:
  "preserve_ids t n ecs (tc0, nc0) = (tc, nc) \<Longrightarrow> k \<noteq> ''id'' \<Longrightarrow>
     map_of tc k = map_of tc0 k \<and> map_of nc k = map_of nc0 k"
  using preserve_ids_keys [of k t n ecs tc0 nc0] by simp

lemma create_or_update_project_profile_writes:
  "\<exists>c tc nc k.
     issued s (snd (create_or_update_project_profile client d nm nemo tooling region account s))
       = profiles_call d # k @ [c]
     \<and> \<not> list_ex profile_write k
     \<and> profile_write c
     \<and> map_of (kwargs c) ''environmentConfigurations'' = Some (JList [JObj tc, JObj nc])
     \<and> (\<forall>k. k \<noteq> ''id'' \<longrightarrow> map_of tc k = map_of (tooling_config tooling region account) k)
     \<and> (\<forall>k. k \<noteq> ''id'' \<longrightarrow> map_of nc k = map_of (nemo_tooling_config nemo region account) k)
     \<and> (operation c = ''update_project_profile''
          \<longrightarrow> map fst (kwargs c)
              = [''domainIdentifier'', ''identifier'', ''description'', ''environmentConfigurations''])"
proof (cases "find_project_profile client d nm s")
  case (Pair existing s1)
  have t1: "trace s1 = trace s @ [profiles_call d]"
    using find_project_profile_trace [of client d nm s] Pair by simp
  show ?thesis
  proof (cases existing)
    case None
    then show ?thesis using Pair t1
      apply (rule_tac x = "create_profile_call d nm [JObj (tooling_config tooling region account),
                 JObj (nemo_tooling_config nemo region account)]" in exI)
      apply (rule_tac x = "tooling_config tooling region account" in exI)
      apply (rule_tac x = "nemo_tooling_config nemo region account" in exI)
      apply (rule_tac x = "[]" in exI)
      apply (simp add: create_or_update_project_profile_def invoke_def print_def issued_def Let_def
        create_profile_call_def request_def and_then_def profile_write_def
        split: prod.splits sum.splits)
      done
  next
    case (Some prof)
    obtain tc nc where cfgs: "(case get_project_profile client (trace s1 @ [get_profile_call d (rid prof)]) of
              Inr pd \<Rightarrow> preserve_ids tooling nemo (page_items (environmentConfigurations pd))
                         (tooling_config tooling region account, nemo_tooling_config nemo region account)
            | Inl e \<Rightarrow> (tooling_config tooling region account, nemo_tooling_config nemo region account))
            = (tc, nc)"
      by (cases "(case get_project_profile client (trace s1 @ [get_profile_call d (rid prof)]) of
              Inr pd \<Rightarrow> preserve_ids tooling nemo (page_items (environmentConfigurations pd))
                         (tooling_config tooling region account, nemo_tooling_config nemo region account)
            | Inl e \<Rightarrow> (tooling_config tooling region account, nemo_tooling_config nemo region account))")
    have keys: "\<forall>k. k \<noteq> ''id'' \<longrightarrow> map_of tc k = map_of (tooling_config tooling region account) k"
               "\<forall>k. k \<noteq> ''id'' \<longrightarrow> map_of nc k = map_of (nemo_tooling_config nemo region account) k"
      using cfgs by (auto split: sum.splits dest: preserve_ids_other_keys)
    show ?thesis using Pair t1 Some cfgs keys
      apply (rule_tac x = "update_profile_call d (rid prof) [JObj tc, JObj nc]" in exI)
      apply (rule_tac x = tc in exI)
      apply (rule_tac x = nc in exI)
      apply (rule_tac x = "[get_profile_call d (rid prof)]" in exI)
      apply (simp add: create_or_update_project_profile_def invoke_def print_def issued_def Let_def
        update_profile_call_def get_profile_call_def request_def and_then_def profile_write_def
        split: prod.splits sum.splits)
      done
  qed
qed

lemma configured_domain_found:
  "find_project_profile configured_domain ''dzd_1'' ''NeMo-HyperPod-Profile'' init
     = (Some \<lparr>rid = ''pp-1'', rname = Some ''NeMo-HyperPod-Profile''\<rparr>,
        \<lparr>trace = [profiles_call ''dzd_1''], stdout = []\<rparr>)"
  "find_project_profile unconfigured_profile ''dzd_1'' ''NeMo-HyperPod-Profile'' init
     = (Some \<lparr>rid = ''pp-1'', rname = Some ''NeMo-HyperPod-Profile''\<rparr>,
        \<lparr>trace = [profiles_call ''dzd_1''], stdout = []\<rparr>)"
  by (simp_all add: find_project_profile_def unconfigured_profile_def configured_domain_def
        fresh_domain_def invoke_def init_def page_items_def profiles_call_def)

theorem update_preserves_config_ids_witness:
  "issued \<lparr>trace = [profiles_call ''dzd_1''], stdout = []\<rparr>
     (snd (create_or_update_project_profile configured_domain ''dzd_1'' ''NeMo-HyperPod-Profile''
             ''bp-nemo'' ''bp-tooling'' ''eu-west-1'' ''111122223333'' init))
     = [get_profile_call ''dzd_1'' ''pp-1'',
        update_profile_call ''dzd_1'' ''pp-1''
          [JObj (tooling_config ''bp-tooling'' ''eu-west-1'' ''111122223333'' @ [(''id'', JStr ''E0'')]),
           JObj (nemo_tooling_config ''bp-nemo'' ''eu-west-1'' ''111122223333'' @ [(''id'', JStr ''E1'')])]]
   \<and> issued \<lparr>trace = [profiles_call ''dzd_1''], stdout = []\<rparr>
     (snd (create_or_update_project_profile unconfigured_profile ''dzd_1'' ''NeMo-HyperPod-Profile''
             ''bp-nemo'' ''bp-tooling'' ''eu-west-1'' ''111122223333'' init))
     = [get_profile_call ''dzd_1'' ''pp-1'',
        update_profile_call ''dzd_1'' ''pp-1''
          [JObj (tooling_config ''bp-tooling'' ''eu-west-1'' ''111122223333''),
           JObj (nemo_tooling_config ''bp-nemo'' ''eu-west-1'' ''111122223333'')]]"
proof -
  have d1: "get_project_profile configured_domain t
             = Inr \<lparr>environmentConfigurations =
                      Some [\<lparr>ec_blueprint = Some ''bp-tooling'', ec_id = Some ''E0''\<rparr>,
                            \<lparr>ec_blueprint = Some ''bp-nemo'', ec_id = Some ''E1''\<rparr>],
                    domainUnitId = Some ''du-root''\<rparr>" for t
    by (simp add: configured_domain_def fresh_domain_def)
  have d2: "get_project_profile unconfigured_profile t
             = Inr \<lparr>environmentConfigurations =
                   Some [\<lparr>ec_blueprint = Some ''bp-tooling'', ec_id = None\<rparr>,
                         \<lparr>ec_blueprint = Some ''bp-elsewhere'', ec_id = Some ''E9''\<rparr>],
                 domainUnitId = Some ''du-root''\<rparr>" for t
    by (simp add: unconfigured_profile_def)
  have ne: "''bp-tooling'' \<noteq> ''bp-nemo''" by simp
  from update_preserves_config_ids [OF configured_domain_found(1) d1 ne, of "''eu-west-1''" "''111122223333''"]
       update_preserves_config_ids [OF configured_domain_found(2) d2 ne, of "''eu-west-1''" "''111122223333''"]
  show ?thesis
    by (simp add: assigned_ids_def with_id_def page_items_def)
qed

text \<open>
  When the details of the found profile cannot be read, the update is still sent, and
  neither configuration carries an id, although the profile holds \<^verbatim>\<open>E0\<close> and
  \<^verbatim>\<open>E1\<close> for the two blueprints. When the two blueprint ids are the same, the
  second configuration is sent without the id that the profile holds for it.
\<close>

theorem config_ids_counterexample:
  "get_project_profile details_unreadable_once
     [profiles_call ''dzd_1'', get_profile_call ''dzd_1'' ''pp-1'', get_profile_call ''dzd_1'' ''pp-1'']
     = Inr \<lparr>environmentConfigurations =
               Some [\<lparr>ec_blueprint = Some ''bp-tooling'', ec_id = Some ''E0''\<rparr>,
                     \<lparr>ec_blueprint = Some ''bp-nemo'', ec_id = Some ''E1''\<rparr>],
             domainUnitId = Some ''du-root''\<rparr>
   \<and> issued init
        (snd (create_or_update_project_profile details_unreadable_once ''dzd_1''
                ''NeMo-HyperPod-Profile'' ''bp-nemo'' ''bp-tooling'' ''eu-west-1'' ''111122223333'' init))
       = [profiles_call ''dzd_1'', get_profile_call ''dzd_1'' ''pp-1'',
          update_profile_call ''dzd_1'' ''pp-1''
            [JObj (tooling_config ''bp-tooling'' ''eu-west-1'' ''111122223333''),
             JObj (nemo_tooling_config ''bp-nemo'' ''eu-west-1'' ''111122223333'')]]
   \<and> map_of (tooling_config ''bp-tooling'' ''eu-west-1'' ''111122223333'') ''id'' = None
   \<and> map_of (nemo_tooling_config ''bp-nemo'' ''eu-west-1'' ''111122223333'') ''id'' = None
   \<and> issued init
        (snd (create_or_update_project_profile one_blueprint ''dzd_1''
                ''NeMo-HyperPod-Profile'' ''bp-x'' ''bp-x'' ''eu-west-1'' ''111122223333'' init))
       = [profiles_call ''dzd_1'', get_profile_call ''dzd_1'' ''pp-1'',
          update_profile_call ''dzd_1'' ''pp-1''
            [JObj (tooling_config ''bp-x'' ''eu-west-1'' ''111122223333'' @ [(''id'', JStr ''E0'')]),
             JObj (nemo_tooling_config ''bp-x'' ''eu-west-1'' ''111122223333'')]]"
  by (simp add: details_unreadable_once_def one_blueprint_def configured_domain_def fresh_domain_def
        create_or_update_project_profile_def find_project_profile_def and_then_def request_def
        invoke_def print_def issued_def init_def Let_def truthy_def page_items_def
        str_or_empty_def get_profile_call_def update_profile_call_def profiles_call_def
        tooling_config_def nemo_tooling_config_def)

text \<open>
  Claim C8. Whatever the services answer, \<open>create_or_update_project_profile\<close> issues
  exactly one request that writes the profile (a create or an update), and the
  \<^verbatim>\<open>environmentConfigurations\<close> of that request are two entries: first the one of the
  Tooling blueprint with deployment order 0, then the one of the NeMo-Tooling blueprint
  with deployment order 1.
\<close>

theorem profile_configs_in_fixed_order:
  "\<exists>c tc nc.
     filter profile_write
       (issued s (snd (create_or_update_project_profile client d nm nemo tooling region account s))) = [c]
     \<and> map_of (kwargs c) ''environmentConfigurations'' = Some (JList [JObj tc, JObj nc])
     \<and> map_of tc ''environmentBlueprintId'' = Some (JStr tooling)
     \<and> map_of tc ''deploymentOrder'' = Some (JInt 0)
     \<and> map_of nc ''environmentBlueprintId'' = Some (JStr nemo)
     \<and> map_of nc ''deploymentOrder'' = Some (JInt 1)"
proof -
  from create_or_update_project_profile_writes [of s client d nm nemo tooling region account]
  obtain c tc nc k where
    i: "issued s (snd (create_or_update_project_profile client d nm nemo tooling region account s))
          = profiles_call d # k @ [c]"
    and k: "\<not> list_ex profile_write k" and c: "profile_write c"
    and cfg: "map_of (kwargs c) ''environmentConfigurations'' = Some (JList [JObj tc, JObj nc])"
    and tc: "\<forall>k. k \<noteq> ''id'' \<longrightarrow> map_of tc k = map_of (tooling_config tooling region account) k"
    and nc: "\<forall>k. k \<noteq> ''id'' \<longrightarrow> map_of nc k = map_of (nemo_tooling_config nemo region account) k"
    by (elim exE conjE)
  from k have "filter profile_write k = []"
    by (simp add: list_ex_iff filter_empty_conv)
  with i c have "filter profile_write
       (issued s (snd (create_or_update_project_profile client d nm nemo tooling region account s))) = [c]"
    by (simp add: profile_write_def profiles_call_def)
  moreover from tc nc have "map_of tc ''environmentBlueprintId'' = Some (JStr tooling)
     \<and> map_of tc ''deploymentOrder'' = Some (JInt 0)
     \<and> map_of nc ''environmentBlueprintId'' = Some (JStr nemo)
     \<and> map_of nc ''deploymentOrder'' = Some (JInt 1)"
    by (simp add: profile_configs_order)
  ultimately show ?thesis using cfg by (intro exI [of _ c] exI [of _ tc] exI [of _ nc]) simp
qed

lemma profile_updates_unnamed:
  "list_all (\<lambda>c. argument_names c
                   = [''domainIdentifier'', ''identifier'', ''description'', ''environmentConfigurations''])
     (filter (\<lambda>c. operation c = ''update_project_profile'')
        (issued s (snd (create_or_update_project_profile client d nm nemo tooling region account s))))"
proof -
  from create_or_update_project_profile_writes [of s client d nm nemo tooling region account]
  obtain c k where
    i: "issued s (snd (create_or_update_project_profile client d nm nemo tooling region account s))
          = profiles_call d # k @ [c]"
    and k: "\<not> list_ex profile_write k"
    and c: "operation c = ''update_project_profile''
          \<longrightarrow> map fst (kwargs c)
              = [''domainIdentifier'', ''identifier'', ''description'', ''environmentConfigurations'']"
    by (elim exE conjE)
  from k have "filter (\<lambda>c. operation c = ''update_project_profile'') k = []"
    by (auto simp: list_ex_iff filter_empty_conv profile_write_def)
  with i c show ?thesis
    by (simp add: profiles_call_def argument_names_def)
qed

lemma find_blueprint_trace:
  "trace (snd (find_blueprint client d nm s)) = trace s @ [blueprints_call d]"
  by (simp add: find_blueprint_def invoke_def blueprints_call_def print_def split: sum.splits)

section \<open>Update requests\<close>

lemma upload_emits:
  assumes "\<And>c. operation c = ''head_bucket'' \<or> operation c = ''create_bucket''
                \<or> operation c = ''upload_file'' \<Longrightarrow> P c"
  shows "emits P s (snd (upload_nemo_tooling_template client h b r a s))"
  using assms
  apply (simp add: upload_nemo_tooling_template_def run_simps emits_simps
           split del: if_split cong: if_cong sum.case_cong)
  apply (simp add: emits_def emits_simps split del: if_split cong: if_cong sum.case_cong)
  done

lemma blueprint_emits:
  "emits (only_named ''update_environment_blueprint''
            [''domainIdentifier'', ''identifier'', ''description'', ''provisioningProperties'',
             ''userParameters'']) s
     (snd (create_or_update_nemo_tooling_blueprint client h d prov arn region acct s))"
  unfolding create_or_update_nemo_tooling_blueprint_def
    Let_def [of "''nemo-hyperpod-templates-'' @ acct @ ''-'' @ region"]
  apply (rule emits_and_then)
   apply (rule upload_emits)
   apply (auto simp: only_named_def)[1]
  apply (simp add: find_blueprint_def run_simps emits_simps
           split del: if_split cong: if_cong sum.case_cong option.case_cong)
  apply (simp add: emits_def emits_simps only_named_def argument_names_def
           split del: if_split cong: if_cong sum.case_cong option.case_cong)
  done

text \<open>
  Claim C10. Whatever the services answer, every \<^verbatim>\<open>update_environment_blueprint\<close>
  request of \<open>create_or_update_nemo_tooling_blueprint\<close> has the keyword arguments
  domainIdentifier, identifier, description, provisioningProperties and userParameters,
  and every \<^verbatim>\<open>update_project_profile\<close> request of \<open>create_or_update_project_profile\<close>
  has domainIdentifier, identifier, description and environmentConfigurations: the
  resource is named by its id, and no update request has a \<^verbatim>\<open>name\<close> argument.
\<close>

theorem updates_carry_no_name:
  "list_all (\<lambda>c. argument_names c
                   = [''domainIdentifier'', ''identifier'', ''description'',
                      ''provisioningProperties'', ''userParameters'']
                 \<and> ''name'' \<notin> set (argument_names c))
     (filter (\<lambda>c. operation c = ''update_environment_blueprint'')
        (issued s (snd (create_or_update_nemo_tooling_blueprint client h d prov arn region acct s))))
   \<and> list_all (\<lambda>c. argument_names c
                   = [''domainIdentifier'', ''identifier'', ''description'', ''environmentConfigurations'']
                 \<and> ''name'' \<notin> set (argument_names c))
     (filter (\<lambda>c. operation c = ''update_project_profile'')
        (issued s' (snd (create_or_update_project_profile client d nm nemo tooling region acct s'))))"
proof -
  have "list_all (only_named ''update_environment_blueprint''
            [''domainIdentifier'', ''identifier'', ''description'', ''provisioningProperties'',
             ''userParameters''])
          (issued s (snd (create_or_update_nemo_tooling_blueprint client h d prov arn region acct s)))"
    using blueprint_emits [of s client h d prov arn region acct]
    by (simp add: emits_def issued_def)
  from only_named_filter [OF this]
  have 1: "list_all (\<lambda>c. argument_names c
                   = [''domainIdentifier'', ''identifier'', ''description'',
                      ''provisioningProperties'', ''userParameters''])
     (filter (\<lambda>c. operation c = ''update_environment_blueprint'')
        (issued s (snd (create_or_update_nemo_tooling_blueprint client h d prov arn region acct s))))" .
  have 2: "list_all (\<lambda>c. argument_names c
                   = [''domainIdentifier'', ''identifier'', ''description'', ''environmentConfigurations''])
     (filter (\<lambda>c. operation c = ''update_project_profile'')
        (issued s' (snd (create_or_update_project_profile client d nm nemo tooling region acct s'))))"
    by (rule profile_updates_unnamed)
  from 1 2 show ?thesis
    by (simp add: list_all_iff)
qed

section \<open>Which failures end the run\<close>

lemma upload_propagates:
  "propagates client s (upload_nemo_tooling_template client h b r a s)"
  apply (simp add: upload_nemo_tooling_template_def run_simps propagates_simps
           split del: if_split cong: if_cong sum.case_cong)
  apply (simp add: propagates_def failure_def err_of_def propagates_simps
           split del: if_split cong: if_cong sum.case_cong)
  done

lemma get_config_silent: "trace (snd (get_config env s)) = trace s"
  by (simp add: get_config_def print_def Let_def split: sum.splits prod.splits)

lemma get_config_propagates: "propagates client s (get_config env s)"
  by (rule propagates_guarded) (simp add: emits_def get_config_silent)

lemma get_clients_propagates: "propagates client s (get_clients client cfg s)"
  unfolding get_clients_def by (rule request_guarded) (simp add: guarded_def)

lemma get_tooling_propagates: "propagates client s (get_tooling_blueprint_config client d s)"
  apply (rule propagates_guarded)
  apply (simp add: get_tooling_blueprint_config_def run_simps emits_simps
           split del: if_split cong: if_cong sum.case_cong option.case_cong)
  apply (simp add: emits_def emits_simps guarded_def
           split del: if_split cong: if_cong sum.case_cong option.case_cong)
  done

lemma authorize_blueprint_guarded:
  "emits guarded s (authorize_blueprint_for_domain_unit client d b u a s)"
  apply (simp add: authorize_blueprint_for_domain_unit_def run_simps emits_state_simps trace_simps
           split del: if_split cong: if_cong sum.case_cong option.case_cong)
  apply (simp add: emits_def emits_state_simps guarded_def trace_simps
           split del: if_split cong: if_cong sum.case_cong option.case_cong)
  done

lemma authorize_all_users_guarded:
  "emits guarded s (authorize_all_users client d p s)"
  apply (simp add: authorize_all_users_def run_simps emits_state_simps
           split del: if_split cong: if_cong sum.case_cong option.case_cong grant_scan.case_cong)
  apply (simp add: emits_def emits_state_simps guarded_def
           split del: if_split cong: if_cong sum.case_cong option.case_cong grant_scan.case_cong)
  done

lemma blueprint_propagates:
  "propagates client s (create_or_update_nemo_tooling_blueprint client h d prov arn region acct s)"
  unfolding create_or_update_nemo_tooling_blueprint_def
    Let_def [of "''nemo-hyperpod-templates-'' @ acct @ ''-'' @ region"]
  apply (rule propagates_and_then)
   apply (rule upload_propagates)
  apply (simp add: find_blueprint_def run_simps propagates_simps
           split del: if_split cong: if_cong sum.case_cong option.case_cong)
  apply (simp add: propagates_def failure_def err_of_def propagates_simps
           split del: if_split cong: if_cong sum.case_cong option.case_cong)
  done

lemma case_preserve_ids:
  "(case preserve_ids t n ecs cfgs of (a, b) \<Rightarrow> F a b) =
     F (fst (preserve_ids t n ecs cfgs)) (snd (preserve_ids t n ecs cfgs))"
  by (simp add: case_prod_beta)

lemma profile_propagates:
  "propagates client s (create_or_update_project_profile client d nm nemo tooling region acct s)"
  apply (simp add: create_or_update_project_profile_def find_project_profile_def run_simps propagates_simps
           case_preserve_ids
           split del: if_split cong: if_cong sum.case_cong option.case_cong)
  apply (simp add: propagates_def failure_def err_of_def propagates_simps
           split del: if_split cong: if_cong sum.case_cong option.case_cong)
  done

lemma propagates_ifI:
  "(b \<Longrightarrow> propagates client s A) \<Longrightarrow> (\<not> b \<Longrightarrow> propagates client s B)
     \<Longrightarrow> propagates client s (if b then A else B)"
  by simp

lemma authorize_all_users_after:
  "emits guarded s s0 \<Longrightarrow> emits guarded s (authorize_all_users client d p s0)"
  by (rule emits_trans [OF _ authorize_all_users_guarded])

lemma main_propagates: "propagates client s (main client h s)"
  unfolding main_def Let_def
  apply (rule propagates_from)
    apply (rule get_config_propagates)
   apply (simp only: emits_print emits_same)
  apply (rule propagates_from)
    apply (rule get_clients_propagates)
   apply (simp only: emits_print emits_same)
  apply (rule propagates_from)
    apply (rule request_guarded)
    apply (simp add: guarded_def)
   apply (simp only: emits_print emits_same)
  apply (rule propagates_from)
    apply (rule get_tooling_propagates)
   apply (simp only: emits_print emits_same)
  apply (simp only: case_prod_beta)
  apply (rule propagates_ifI)
   apply (rule propagates_guarded)
   apply (simp only: snd_conv emits_print emits_same)
  apply (rule propagates_from)
    apply (rule blueprint_propagates)
   apply (simp only: emits_print emits_state_if emits_same if_cancel)
  apply (rule propagates_from)
    apply (rule request_guarded)
    apply (simp add: guarded_def)
   apply (simp only: emits_print emits_same)
  apply (rule propagates_from)
    apply (rule profile_propagates)
   apply (simp only: emits_print emits_state_if emits_same authorize_blueprint_guarded if_cancel)
  apply (rule propagates_guarded)
  apply (simp only: snd_conv emits_print)
  apply (rule authorize_all_users_after)
  apply (simp only: emits_print emits_same)
  done

lemma fatal_last_nth:
  "fatal_last client t k r \<Longrightarrow> i < length k \<Longrightarrow> failure client (t @ take i k) (k ! i) = Some e
     \<Longrightarrow> Suc i = length k \<and> r = Inl (Raised e)"
proof (induction k arbitrary: t i)
  case Nil
  then show ?case by simp
next
  case (Cons c k)
  show ?case
  proof (cases i)
    case 0
    with Cons.prems show ?thesis
      by (cases k; cases r) (simp_all split: option.splits)
  next
    case (Suc j)
    with Cons.prems have k: "k \<noteq> []" and j: "j < length k" by auto
    from Cons.prems(1) k have "fatal_last client (t @ [c]) k r"
      by (simp add: fatal_last_Cons)
    from Cons.IH [OF this j] Cons.prems(3) Suc show ?thesis by simp
  qed
qed

lemma main_fatal:
  assumes "i < length (issued s (snd (main client h s)))"
    and "failure client (trace s @ take i (issued s (snd (main client h s))))
           (issued s (snd (main client h s)) ! i) = Some e"
  shows "Suc i = length (issued s (snd (main client h s))) \<and> fst (main client h s) = Inl (Raised e)"
  using main_propagates [of client s h] assms
  unfolding propagates_def issued_def
  by (auto dest: fatal_last_nth)

lemmas main_eval = main_def get_config_def get_clients_def get_tooling_blueprint_config_def
  create_or_update_nemo_tooling_blueprint_def upload_nemo_tooling_template_def
  find_blueprint_def authorize_blueprint_for_domain_unit_def
  create_or_update_project_profile_def find_project_profile_def authorize_all_users_def
  and_then_def request_def invoke_def print_def Let_def init_def truthy_def str_or_empty_def
  page_items_def required_def getenv_item_def getenv_default_def managed_listing_def

lemma laptop_host:
  "environ laptop ''AWS_REGION'' = Some ''eu-west-1''"
  "environ laptop ''DOMAIN_ID'' = Some ''dzd_1''"
  "environ laptop ''AWS_PROFILE'' = None"
  "environ laptop ''PROJECT_PROFILE_NAME'' = None"
  "template_exists laptop"
  "template_path laptop = ''/repo/blueprints/nemo-tooling-blueprint.yaml''"
  by (simp_all add: laptop_def)

lemma denied_text:
  "\<not> mentions ''conflict'' denied" "\<not> mentions ''already exists'' denied"
  by (simp_all add: mentions_def denied_def) code_simp+

lemma grants_failing_answers:
  "session (grants_failing e) t = Inr ()"
  "get_caller_identity (grants_failing e) t = Inr ''111122223333''"
  "list_environment_blueprints (grants_failing e) t =
     (if managed_listing t then [Inr (Some [\<lparr>rid = ''bp-tooling'', rname = Some ''Tooling''\<rparr>])]
      else [Inr (Some [])])"
  "list_project_profiles (grants_failing e) t = [Inr (Some [])]"
  "head_bucket (grants_failing e) t = Inr ()"
  "upload_file (grants_failing e) t = Inr ()"
  "create_environment_blueprint (grants_failing e) t = Inr ''bp-nemo''"
  "put_environment_blueprint_configuration (grants_failing e) t = Inr ()"
  "get_environment_blueprint_configuration (grants_failing e) t
     = Inr (Some ''arn:aws:iam::111122223333:role/manage'')"
  "get_domain (grants_failing e) t = Inr (Some ''du-root'')"
  "add_policy_grant (grants_failing e) t = Inl e"
  "get_project_profile (grants_failing e) t
     = Inr \<lparr>environmentConfigurations = Some [], domainUnitId = Some ''du-root''\<rparr>"
  "create_project_profile (grants_failing e) t = Inr ''pp-1''"
  "list_policy_grants (grants_failing e) t = Inr (Some [])"
  by (simp_all add: grants_failing_def fresh_domain_def)

lemma authorize_blueprint_ensures:
  "ensures (\<lambda>s'. map operation (issued s s') = [''add_policy_grant'', ''add_policy_grant'']
              \<and> (case add_policy_grant client (take (Suc (length (trace s))) (trace s')) of
                    Inr ok \<Rightarrow> True
                  | Inl e \<Rightarrow> mentions ''conflict'' e
                       \<or> stdout s' ! length (stdout s)
                           = ''Warning: Could not add CREATE_ENVIRONMENT_PROFILE grant: '' @ err_text e)
              \<and> (case add_policy_grant client (trace s') of
                    Inr ok \<Rightarrow> True
                  | Inl e \<Rightarrow> mentions ''conflict'' e
                       \<or> last (stdout s')
                           = ''Warning: Could not add CREATE_ENVIRONMENT_FROM_BLUEPRINT grant: '' @ err_text e))
     (authorize_blueprint_for_domain_unit client d b u a s)"
  apply (simp only: authorize_blueprint_for_domain_unit_def invoke_def prod.case Let_case_sum Let_if)
  apply (simp add: run_simps ensures_simps
           split del: if_split cong: if_cong sum.case_cong option.case_cong)
  apply (simp add: ensures_def issued_def ensures_simps trace_simps nth_append
           split del: if_split cong: if_cong sum.case_cong option.case_cong)
  done

lemma profile_write_failing_answers:
  "session profile_write_failing t = Inr ()"
  "get_caller_identity profile_write_failing t = Inr ''111122223333''"
  "list_environment_blueprints profile_write_failing t =
     (if managed_listing t then [Inr (Some [\<lparr>rid = ''bp-tooling'', rname = Some ''Tooling''\<rparr>])]
      else [Inr (Some [])])"
  "list_project_profiles profile_write_failing t = [Inr (Some [])]"
  "head_bucket profile_write_failing t = Inr ()"
  "upload_file profile_write_failing t = Inr ()"
  "create_environment_blueprint profile_write_failing t = Inr ''bp-nemo''"
  "put_environment_blueprint_configuration profile_write_failing t = Inr ()"
  "get_environment_blueprint_configuration profile_write_failing t
     = Inr (Some ''arn:aws:iam::111122223333:role/manage'')"
  "get_domain profile_write_failing t = Inr (Some ''du-root'')"
  "add_policy_grant profile_write_failing t = Inr ()"
  "create_project_profile profile_write_failing t = Inl outage"
  by (simp_all add: profile_write_failing_def fresh_domain_def)

lemma profile_write_failing_run:
  "fst (main profile_write_failing laptop init) = Inl (Raised outage)
   \<and> map operation (trace (snd (main profile_write_failing laptop init))) =
    [''Session'', ''get_caller_identity'', ''list_environment_blueprints'',
     ''get_environment_blueprint_configuration'', ''head_bucket'',
     ''upload_file'', ''list_environment_blueprints'',
     ''create_environment_blueprint'',
     ''put_environment_blueprint_configuration'', ''get_domain'',
     ''add_policy_grant'', ''add_policy_grant'', ''list_project_profiles'',
     ''create_project_profile'']"
  by (simp add: main_eval laptop_host profile_write_failing_answers)

lemma profile_write_failing_failure:
  "failure profile_write_failing t c
     = (if operation c = ''create_project_profile'' then Some outage else None)"
  by (simp add: failure_def err_of_def Let_def profile_write_failing_def fresh_domain_def)

lemma grants_failing_run:
  assumes "\<not> mentions ''conflict'' e" and "\<not> mentions ''already exists'' e"
  shows "fst (main (grants_failing e) laptop init) = Inr ()
   \<and> map operation (trace (snd (main (grants_failing e) laptop init))) =
    [''Session'', ''get_caller_identity'', ''list_environment_blueprints'',
     ''get_environment_blueprint_configuration'', ''head_bucket'',
     ''upload_file'', ''list_environment_blueprints'',
     ''create_environment_blueprint'',
     ''put_environment_blueprint_configuration'', ''get_domain'',
     ''add_policy_grant'', ''add_policy_grant'', ''list_project_profiles'',
     ''create_project_profile'', ''get_project_profile'',
     ''list_policy_grants'', ''add_policy_grant'']
   \<and> ''Warning: Could not add authorization: '' @ err_text e
       \<in> set (stdout (snd (main (grants_failing e) laptop init)))"
  using assms by (simp add: main_eval laptop_host grants_failing_answers)

lemma enable_failing_answers:
  "session enable_failing t = Inr ()"
  "get_caller_identity enable_failing t = Inr ''111122223333''"
  "list_environment_blueprints enable_failing t =
     (if managed_listing t then [Inr (Some [\<lparr>rid = ''bp-tooling'', rname = Some ''Tooling''\<rparr>])]
      else [Inr (Some [])])"
  "list_project_profiles enable_failing t = [Inr (Some [])]"
  "head_bucket enable_failing t = Inr ()"
  "upload_file enable_failing t = Inr ()"
  "create_environment_blueprint enable_failing t = Inr ''bp-nemo''"
  "put_environment_blueprint_configuration enable_failing t = Inl denied"
  "get_environment_blueprint_configuration enable_failing t
     = Inr (Some ''arn:aws:iam::111122223333:role/manage'')"
  "get_domain enable_failing t = Inr (Some ''du-root'')"
  "add_policy_grant enable_failing t = Inr ()"
  "get_project_profile enable_failing t
     = Inr \<lparr>environmentConfigurations = Some [], domainUnitId = Some ''du-root''\<rparr>"
  "create_project_profile enable_failing t = Inr ''pp-1''"
  "list_policy_grants enable_failing t = Inr (Some [])"
  by (simp_all add: enable_failing_def fresh_domain_def)

lemma enable_failing_run:
  "fst (main enable_failing laptop init) = Inr ()
   \<and> check_mark @ '' Blueprint already enabled'' \<in> set (stdout (snd (main enable_failing laptop init)))"
  by (simp add: main_eval laptop_host enable_failing_answers)

text \<open>
  Claim C5, as amended. In a run of the first script, whatever the services answer: a
  request for \<^verbatim>\<open>create_bucket\<close>, \<^verbatim>\<open>upload_file\<close>, \<^verbatim>\<open>update_environment_blueprint\<close>,
  \<^verbatim>\<open>create_environment_blueprint\<close>, \<^verbatim>\<open>update_project_profile\<close> or
  \<^verbatim>\<open>create_project_profile\<close> that is answered by an exception is the last request of
  the run, and the run ends with that exception, exit status 1. A grant request is
  different: \<open>authorize_blueprint_for_domain_unit\<close> issues both its grant requests
  whatever the first is answered, an answer that is an exception without the conflict
  marker is printed as a warning with the text of the exception, and a run in which
  every grant request fails so completes with exit status 0.
\<close>

theorem unguarded_failure_ends_run:
  "(i < length (issued s (snd (main client h s)))
      \<and> failure client (trace s @ take i (issued s (snd (main client h s))))
            (issued s (snd (main client h s)) ! i) = Some e
    \<longrightarrow> Suc i = length (issued s (snd (main client h s)))
        \<and> fst (main client h s) = Inl (Raised e)
        \<and> exit_code (fst (main client h s)) = 1)
   \<and> map operation (issued s (authorize_blueprint_for_domain_unit client d b u a s))
       = [''add_policy_grant'', ''add_policy_grant'']
   \<and> (add_policy_grant client
         (take (Suc (length (trace s))) (trace (authorize_blueprint_for_domain_unit client d b u a s)))
         = Inl e1 \<and> \<not> mentions ''conflict'' e1
       \<longrightarrow> stdout (authorize_blueprint_for_domain_unit client d b u a s) ! length (stdout s)
           = ''Warning: Could not add CREATE_ENVIRONMENT_PROFILE grant: '' @ err_text e1)
   \<and> (add_policy_grant client (trace (authorize_blueprint_for_domain_unit client d b u a s)) = Inl e2
         \<and> \<not> mentions ''conflict'' e2
       \<longrightarrow> last (stdout (authorize_blueprint_for_domain_unit client d b u a s))
           = ''Warning: Could not add CREATE_ENVIRONMENT_FROM_BLUEPRINT grant: '' @ err_text e2)
   \<and> (\<not> mentions ''conflict'' e3 \<and> \<not> mentions ''already exists'' e3
       \<longrightarrow> fst (main (grants_failing e3) laptop init) = Inr ()
         \<and> exit_code (fst (main (grants_failing e3) laptop init)) = 0
         \<and> ''Warning: Could not add authorization: '' @ err_text e3
             \<in> set (stdout (snd (main (grants_failing e3) laptop init))))"
proof -
  have 1: "Suc i = length (issued s (snd (main client h s)))
        \<and> fst (main client h s) = Inl (Raised e)
        \<and> exit_code (fst (main client h s)) = 1"
    if "i < length (issued s (snd (main client h s)))"
      and "failure client (trace s @ take i (issued s (snd (main client h s))))
            (issued s (snd (main client h s)) ! i) = Some e"
    using main_fatal [OF that] by (simp add: exit_code_def)
  note 2 = authorize_blueprint_ensures [of s client d b u a, unfolded ensures_def]
  have 3: "fst (main (grants_failing e3) laptop init) = Inr ()
         \<and> exit_code (fst (main (grants_failing e3) laptop init)) = 0
         \<and> ''Warning: Could not add authorization: '' @ err_text e3
             \<in> set (stdout (snd (main (grants_failing e3) laptop init)))"
    if "\<not> mentions ''conflict'' e3" and "\<not> mentions ''already exists'' e3"
    using grants_failing_run [OF that] by (simp add: exit_code_def)
  from 1 2 3 show ?thesis
    by (auto split: sum.splits)
qed

theorem unguarded_failure_ends_run_witness:
  "Suc 13 = length (issued init (snd (main profile_write_failing laptop init)))
   \<and> fst (main profile_write_failing laptop init) = Inl (Raised outage)
   \<and> exit_code (fst (main profile_write_failing laptop init)) = 1
   \<and> stdout (authorize_blueprint_for_domain_unit (grants_failing denied) ''dzd_1'' ''bp-nemo''
               ''du-root'' ''111122223333'' init) ! length (stdout init)
       = ''Warning: Could not add CREATE_ENVIRONMENT_PROFILE grant: '' @ err_text denied
   \<and> last (stdout (authorize_blueprint_for_domain_unit (grants_failing denied) ''dzd_1'' ''bp-nemo''
               ''du-root'' ''111122223333'' init))
       = ''Warning: Could not add CREATE_ENVIRONMENT_FROM_BLUEPRINT grant: '' @ err_text denied
   \<and> fst (main (grants_failing denied) laptop init) = Inr ()
   \<and> exit_code (fst (main (grants_failing denied) laptop init)) = 0"
proof -
  have len: "length (issued init (snd (main profile_write_failing laptop init))) = 14"
    using profile_write_failing_run [THEN conjunct2, THEN arg_cong [where f = length]]
    by (simp add: issued_def init_def)
  have "operation (issued init (snd (main profile_write_failing laptop init)) ! 13)
          = map operation (trace (snd (main profile_write_failing laptop init))) ! 13"
    using len by (simp add: issued_def init_def)
  then have op: "operation (issued init (snd (main profile_write_failing laptop init)) ! 13)
          = ''create_project_profile''"
    using profile_write_failing_run by simp
  from unguarded_failure_ends_run [of 13 init profile_write_failing laptop outage
        "''dzd_1''" "''bp-nemo''" "''du-root''" "''111122223333''" denied denied denied]
    len op
  have 1: "Suc 13 = length (issued init (snd (main profile_write_failing laptop init)))
   \<and> fst (main profile_write_failing laptop init) = Inl (Raised outage)
   \<and> exit_code (fst (main profile_write_failing laptop init)) = 1"
    by (simp add: profile_write_failing_failure exit_code_def)
  from unguarded_failure_ends_run [of 0 init "grants_failing denied" laptop outage
        "''dzd_1''" "''bp-nemo''" "''du-root''" "''111122223333''" denied denied denied]
    denied_text
  have 2: "stdout (authorize_blueprint_for_domain_unit (grants_failing denied) ''dzd_1'' ''bp-nemo''
               ''du-root'' ''111122223333'' init) ! length (stdout init)
       = ''Warning: Could not add CREATE_ENVIRONMENT_PROFILE grant: '' @ err_text denied
   \<and> last (stdout (authorize_blueprint_for_domain_unit (grants_failing denied) ''dzd_1'' ''bp-nemo''
               ''du-root'' ''111122223333'' init))
       = ''Warning: Could not add CREATE_ENVIRONMENT_FROM_BLUEPRINT grant: '' @ err_text denied
   \<and> fst (main (grants_failing denied) laptop init) = Inr ()
   \<and> exit_code (fst (main (grants_failing denied) laptop init)) = 0"
    by (simp add: grants_failing_answers exit_code_def)
  from 1 2 show ?thesis by (simp add: exit_code_def)
qed

text \<open>
  A failure of a grant request that is no conflict does let the run continue: with every
  grant request answered by \<open>denied\<close>, the run issues all its requests and completes
  with exit status 0. So does a failure of \<^verbatim>\<open>put_environment_blueprint_configuration\<close>.
\<close>

theorem grant_failure_continues_counterexample:
  "\<not> mentions ''conflict'' denied
   \<and> \<not> mentions ''already exists'' denied
   \<and> map operation (trace (snd (main (grants_failing denied) laptop init))) =
    [''Session'', ''get_caller_identity'', ''list_environment_blueprints'',
     ''get_environment_blueprint_configuration'', ''head_bucket'',
     ''upload_file'', ''list_environment_blueprints'',
     ''create_environment_blueprint'',
     ''put_environment_blueprint_configuration'', ''get_domain'',
     ''add_policy_grant'', ''add_policy_grant'', ''list_project_profiles'',
     ''create_project_profile'', ''get_project_profile'',
     ''list_policy_grants'', ''add_policy_grant'']
   \<and> add_policy_grant (grants_failing denied)
         (take 11 (trace (snd (main (grants_failing denied) laptop init)))) = Inl denied
   \<and> fst (main (grants_failing denied) laptop init) = Inr ()
   \<and> exit_code (fst (main (grants_failing denied) laptop init)) = 0
   \<and> put_environment_blueprint_configuration enable_failing
         (take 9 (trace (snd (main enable_failing laptop init)))) = Inl denied
   \<and> fst (main enable_failing laptop init) = Inr ()
   \<and> exit_code (fst (main enable_failing laptop init)) = 0"
  using grants_failing_run [OF denied_text] denied_text enable_failing_run
  by (simp add: grants_failing_answers enable_failing_answers exit_code_def)

section \<open>The trust policy of the shared role\<close>

lemma create_role_ensures:
  "ensures (\<lambda>m. take 1 (issued s (snd m))
                  = [Call ''iam'' ''create_role''
                       [(''RoleName'', JStr ROLE_NAME),
                        (''AssumeRolePolicyDocument'', trust_policy a d),
                        (''Description'',
                           JStr ''Shared role for blueprint Lambdas to create DataZone connections'')]]
               \<and> remdups (concat (map policy_documents (issued s (snd m)))) = [trust_policy a d])
     (create_role iam a d s)"
  apply (simp add: create_role_def run_simps ensures_simps exn.case_distrib [of "ensures Q" for Q]
           split del: if_split cong: if_cong sum.case_cong exn.case_cong)
  apply (simp add: ensures_def issued_def policy_documents_def ensures_simps
           split del: if_split cong: if_cong sum.case_cong exn.case_cong split: exn.split)
  done

text \<open>
  Claim C7. For every account id and domain id, the trust document has one statement:
  it allows \<^verbatim>\<open>sts:AssumeRole\<close> and \<^verbatim>\<open>sts:TagSession\<close> to the root of the account, on
  the conditions that the ARN of the caller is like
  \<^verbatim>\<open>arn:aws:iam::{accountId}:role/DataZone-Env-*-ConnectionCreatorRole-*\<close>, that the
  request tag \<^verbatim>\<open>datazone:domainId\<close> equals the domain id, and that the request tag
  \<^verbatim>\<open>datazone:projectId\<close> is like \<^verbatim>\<open>*\<close>. The document is a function of the two ids:
  whatever the service answers and whatever happened before, \<open>create_role\<close> first
  requests the role with this document, and every policy document it sends is this
  one.
\<close>

theorem trust_policy_composed:
  "jpath [Key ''Statement'', Index 0, Key ''Principal''] (trust_policy a d)
     = Some (JObj [(''AWS'', JStr (''arn:aws:iam::'' @ a @ '':root''))])
   \<and> jpath [Key ''Statement'', Index 0, Key ''Effect''] (trust_policy a d) = Some (JStr ''Allow'')
   \<and> jpath [Key ''Statement'', Index 0, Key ''Action''] (trust_policy a d)
     = Some (JList [JStr ''sts:AssumeRole'', JStr ''sts:TagSession''])
   \<and> jpath [Key ''Statement'', Index 0, Key ''Condition''] (trust_policy a d)
     = Some (JObj
         [(''ArnLike'',
             JObj [(''aws:PrincipalArn'',
                    JStr (''arn:aws:iam::'' @ a @ '':role/DataZone-Env-*-ConnectionCreatorRole-*''))]),
          (''StringLike'', JObj [(''aws:RequestTag/datazone:projectId'', JStr ''*'')]),
          (''StringEquals'', JObj [(''aws:RequestTag/datazone:domainId'', JStr d)])])
   \<and> jpath [Key ''Statement'', Index 1] (trust_policy a d) = None
   \<and> take 1 (issued s (snd (create_role iam a d s)))
     = [Call ''iam'' ''create_role''
          [(''RoleName'', JStr ''DataZoneDomainConnectionCreator''),
           (''AssumeRolePolicyDocument'', trust_policy a d),
           (''Description'',
              JStr ''Shared role for blueprint Lambdas to create DataZone connections'')]]
   \<and> remdups (concat (map policy_documents (issued s (snd (create_role iam a d s)))))
     = [trust_policy a d]"
  using create_role_ensures [of s a d iam]
  by (simp add: ensures_def trust_policy_def role_pattern_def ROLE_NAME_def)

section \<open>Missing configuration\<close>






section \<open>Conflicts\<close>










end
